theory Spec2Isabelle
  imports Complex_Main "HOL-Library.AList"
begin

section \<open>Python values\<close>

text \<open>
  The records handled by \<^verbatim>\<open>fable_api.py\<close> and \<^verbatim>\<open>exporters.py\<close> are decoded JSON:
  \<^verbatim>\<open>None\<close>, booleans, integers, floats, strings, lists and dictionaries with string keys.
  A dictionary is an association list in insertion order; \<^verbatim>\<open>d.get(k)\<close> reads the
  first entry for \<open>k\<close>. A float is the rational it denotes, an infinity or NaN.
  A string is the list of the bytes of its UTF-8 encoding; where the code counts or
  iterates characters, the bytes are grouped into code points (\<open>utf8_chars\<close> below).
\<close>

datatype pyfloat = FFinite rat | FInf bool | FNan

datatype pyval =
    PNone
  | PBool bool
  | PInt int
  | PFloat pyfloat
  | PStr string
  | PList "pyval list"
  | PDict "(string \<times> pyval) list"

datatype pyerror =
    ValueError string
  | TypeError
  | AttributeError
  | OverflowError
  | OSError

type_synonym pydict = "(string \<times> pyval) list"

text \<open>Every error above is a subclass of Python's \<^verbatim>\<open>Exception\<close>.\<close>

fun is_Exception :: "pyerror \<Rightarrow> bool" where
  "is_Exception (ValueError m) = True"
| "is_Exception TypeError = True"
| "is_Exception AttributeError = True"
| "is_Exception OverflowError = True"
| "is_Exception OSError = True"

text \<open>Truth value testing (\<^verbatim>\<open>bool(v)\<close>, \<^verbatim>\<open>if v\<close>, \<^verbatim>\<open>not v\<close>).\<close>

fun truthy :: "pyval \<Rightarrow> bool" where
  "truthy PNone = False"
| "truthy (PBool b) = b"
| "truthy (PInt i) = (i \<noteq> 0)"
| "truthy (PFloat f) = (f \<noteq> FFinite 0)"
| "truthy (PStr s) = (s \<noteq> [])"
| "truthy (PList xs) = (xs \<noteq> [])"
| "truthy (PDict d) = (d \<noteq> [])"

text \<open>
  The characters of a string: in UTF-8 a code point is one byte that is not a continuation
  byte (\<open>0x80\<close> to \<open>0xBF\<close>) followed by its continuation bytes. \<^verbatim>\<open>len(s)\<close> is
  the number of characters.
\<close>

definition is_continuation :: "char \<Rightarrow> bool" where
  "is_continuation c = (128 \<le> (of_char c :: nat) \<and> (of_char c :: nat) < 192)"

fun utf8_chars :: "string \<Rightarrow> string list" where
  "utf8_chars [] = []"
| "utf8_chars (c # cs) =
     (case utf8_chars cs of
        [] \<Rightarrow> [[c]]
      | g # gs \<Rightarrow>
          (case g of
             [] \<Rightarrow> [c] # gs
           | b # bs \<Rightarrow> if is_continuation b then (c # g) # gs else [c] # g # gs))"

definition py_len :: "string \<Rightarrow> nat" where
  "py_len s = length (utf8_chars s)"

text \<open>\<^verbatim>\<open>a or b\<close> on values whose evaluation cannot raise.\<close>

definition py_or :: "pyval \<Rightarrow> pyval \<Rightarrow> pyval" where
  "py_or a b = (if truthy a then a else b)"

text \<open>\<^verbatim>\<open>isinstance(v, dict)\<close> and \<^verbatim>\<open>isinstance(v, list)\<close>.\<close>

fun isinstance_dict :: "pyval \<Rightarrow> bool" where
  "isinstance_dict (PDict d) = True"
| "isinstance_dict v = False"

fun isinstance_list :: "pyval \<Rightarrow> bool" where
  "isinstance_list (PList xs) = True"
| "isinstance_list v = False"

text \<open>\<^verbatim>\<open>d.get(k, default)\<close> and \<^verbatim>\<open>d.get(k)\<close> on a dictionary.\<close>

definition dict_get_default :: "pydict \<Rightarrow> string \<Rightarrow> pyval \<Rightarrow> pyval" where
  "dict_get_default d k dflt = (case map_of d k of None \<Rightarrow> dflt | Some v \<Rightarrow> v)"

definition dict_get :: "pydict \<Rightarrow> string \<Rightarrow> pyval" where
  "dict_get d k = dict_get_default d k PNone"

text \<open>
  \<^verbatim>\<open>d.update(other)\<close>: every entry of \<open>other\<close>, in order, replaces the value of an
  existing key in place or is appended.
\<close>

definition dict_update :: "(string \<times> 'v) list \<Rightarrow> (string \<times> 'v) list \<Rightarrow> (string \<times> 'v) list" where
  "dict_update d other = fold (\<lambda>(k, v) acc. AList.update k v acc) other d"

text \<open>Lists and dictionaries are unhashable; hashing one raises \<^verbatim>\<open>TypeError\<close>.\<close>

fun hashable :: "pyval \<Rightarrow> bool" where
  "hashable (PList xs) = False"
| "hashable (PDict d) = False"
| "hashable v = True"

section \<open>Review merger (\<^verbatim>\<open>fable_api.merge_reviews_with_books\<close>)\<close>

text \<open>
  The review lookup is annotated \<^verbatim>\<open>Dict[str, Dict[str, Any]]\<close>: its keys are strings,
  its values are checked by the code before use. \<^verbatim>\<open>book_id in reviews\<close> hashes
  \<open>book_id\<close> first, so an unhashable identifier raises; a hashable identifier that is not
  a string equals no key.
\<close>

type_synonym reviews = "(string \<times> pyval) list"

definition in_reviews :: "pyval \<Rightarrow> reviews \<Rightarrow> pyerror + bool" where
  "in_reviews book_id rs =
     (if \<not> hashable book_id then Inl TypeError
      else case book_id of
             PStr s \<Rightarrow> Inr (map_of rs s \<noteq> None)
           | _ \<Rightarrow> Inr False)"

text \<open>
  Line 302: \<^verbatim>\<open>book_data = book.get("book", {}) if isinstance(book.get("book"), dict) else book\<close>.
\<close>

definition merge_book_data :: "pydict \<Rightarrow> pyval" where
  "merge_book_data book =
     (if isinstance_dict (dict_get book ''book'') then dict_get_default book ''book'' (PDict [])
      else PDict book)"

text \<open>
  Lines 312 to 318: \<^verbatim>\<open>merged_book = dict(book)\<close>, then the overlay of the review
  found under \<open>book_id\<close>. \<^verbatim>\<open>book_id and book_id in reviews\<close> tests membership
  only for a truthy identifier.
\<close>

definition merge_overlay :: "pydict \<Rightarrow> pyval \<Rightarrow> reviews \<Rightarrow> pyerror + pydict" where
  "merge_overlay book book_id rs =
     (let merged_book = book
      in if \<not> truthy book_id then Inr merged_book
         else case in_reviews book_id rs of
                Inl e \<Rightarrow> Inl e
              | Inr found \<Rightarrow>
                  if \<not> found then Inr merged_book
                  else
                    let review_data = (case book_id of PStr s \<Rightarrow> dict_get rs s | _ \<Rightarrow> PNone)
                    in if truthy review_data \<and> isinstance_dict review_data
                       then (case review_data of
                               PDict rd \<Rightarrow> Inr (dict_update merged_book rd)
                             | _ \<Rightarrow> Inr merged_book)
                       else Inr merged_book)"

text \<open>
  The body of the \<^verbatim>\<open>try\<close> block for one dictionary \<open>book\<close>, run on the list
  \<open>merged_books\<close> built so far. It returns the exception raised (if any) with the list
  as the body left it.
\<close>

definition merge_try :: "pydict \<Rightarrow> reviews \<Rightarrow> pyval list \<Rightarrow> pyerror option \<times> pyval list" where
  "merge_try book rs merged_books =
     (let book_data = merge_book_data book
      in if \<not> truthy book_data \<or> \<not> isinstance_dict book_data
         then (None, merged_books @ [PDict book])
         else
           let book_id = (case book_data of PDict bd \<Rightarrow> dict_get bd ''id'' | _ \<Rightarrow> PNone)
           in case merge_overlay book book_id rs of
                Inl e \<Rightarrow> (Some e, merged_books)
              | Inr merged_book \<Rightarrow> (None, merged_books @ [PDict merged_book]))"

text \<open>
  The loop over \<open>books\<close>. An entry that is \<^verbatim>\<open>None\<close> or not a dictionary is skipped
  (\<^verbatim>\<open>continue\<close>); an exception of the body that is an \<^verbatim>\<open>Exception\<close> is caught
  and the original record appended; any other would propagate.
\<close>

fun merge_loop :: "pyval list \<Rightarrow> reviews \<Rightarrow> pyval list \<Rightarrow> pyerror + pyval list" where
  "merge_loop [] rs merged_books = Inr merged_books"
| "merge_loop (book # books) rs merged_books =
     (if book = PNone \<or> \<not> isinstance_dict book then merge_loop books rs merged_books
      else case book of
             PDict b \<Rightarrow>
               (case merge_try b rs merged_books of
                  (None, merged') \<Rightarrow> merge_loop books rs merged'
                | (Some e, merged') \<Rightarrow>
                    if is_Exception e then merge_loop books rs (merged' @ [book])
                    else Inl e)
           | _ \<Rightarrow> merge_loop books rs merged_books)"

definition merge_reviews_with_books :: "pyval list \<Rightarrow> reviews \<Rightarrow> pyerror + pyval list" where
  "merge_reviews_with_books books rs = merge_loop books rs []"

section \<open>Record normalizer (\<^verbatim>\<open>exporters.normalize_book\<close>)\<close>

text \<open>The dictionary returned for \<^verbatim>\<open>None\<close>, a non-dictionary or an empty dictionary.\<close>

definition normalize_defaults :: pydict where
  "normalize_defaults =
    [(''title'', PStr ''''),
     (''subtitle'', PStr ''''),
     (''authors'', PList []),
     (''isbn'', PNone),
     (''imprint'', PNone),
     (''page_count'', PNone),
     (''published_date'', PNone),
     (''description'', PStr ''''),
     (''cover_image'', PStr ''''),
     (''genres'', PList []),
     (''storygraph_genres'', PList []),
     (''moods'', PList []),
     (''content_warnings'', PList []),
     (''status'', PNone),
     (''rating'', PNone),
     (''review'', PStr ''''),
     (''review_summary_liked'', PStr ''''),
     (''review_summary_disliked'', PStr ''''),
     (''review_summary_disagreed'', PStr ''''),
     (''contains_spoilers'', PNone),
     (''did_not_finish'', PNone),
     (''review_created_at'', PNone),
     (''added_at'', PNone),
     (''started_reading_at'', PStr ''''),
     (''finished_reading_at'', PStr ''''),
     (''current_page'', PNone),
     (''total_pages'', PNone),
     (''characters_rating'', PNone),
     (''plot_rating'', PNone),
     (''writing_style_rating'', PNone),
     (''setting_rating'', PNone),
     (''attributes'', PList []),
     (''emoji_reaction'', PStr ''''),
     (''spicy_level'', PNone)]"

text \<open>
  Iterating a value (\<^verbatim>\<open>for x in v\<close>): a list gives its elements, a string its
  characters as one-character strings, a dictionary its keys; \<^verbatim>\<open>None\<close>, booleans
  and numbers are not iterable.
\<close>

fun py_iter :: "pyval \<Rightarrow> pyerror + pyval list" where
  "py_iter (PList xs) = Inr xs"
| "py_iter (PStr s) = Inr (map PStr (utf8_chars s))"
| "py_iter (PDict d) = Inr (map (\<lambda>kv. PStr (fst kv)) d)"
| "py_iter v = Inl TypeError"

text \<open>
  A method call \<^verbatim>\<open>v.get(k)\<close> on a value that need not be a dictionary: of the JSON
  values only a dictionary has the attribute \<^verbatim>\<open>get\<close>.
\<close>

fun method_get :: "pyval \<Rightarrow> string \<Rightarrow> pyerror + pyval" where
  "method_get (PDict d) k = Inr (dict_get d k)"
| "method_get v k = Inl AttributeError"

text \<open>
  \<^verbatim>\<open>[x.get("name") for x in xs if isinstance(x, dict) and x.get("name")]\<close>
\<close>

fun name_of :: "pyval \<Rightarrow> pyval option" where
  "name_of (PDict d) = (if truthy (dict_get d ''name'') then Some (dict_get d ''name'') else None)"
| "name_of v = None"

definition names_of :: "pyval list \<Rightarrow> pyval list" where
  "names_of xs = List.map_filter name_of xs"

text \<open>Line 54: the nested dictionary under \<^verbatim>\<open>book\<close> when there is one, else the record.\<close>

definition nb_book_data :: "pydict \<Rightarrow> pydict" where
  "nb_book_data book = (case dict_get book ''book'' of PDict nested \<Rightarrow> nested | _ \<Rightarrow> book)"

text \<open>Lines 57 to 59.\<close>

definition nb_authors :: "pydict \<Rightarrow> pydict \<Rightarrow> pyval" where
  "nb_authors book_data book =
     (let authors = py_or (py_or (dict_get book_data ''authors'') (dict_get book ''authors'')) (PList [])
      in if \<not> isinstance_list authors then PList [] else authors)"

text \<open>Lines 62 to 64; the comprehension iterates whatever truthy value is stored.\<close>

definition nb_genres :: "pydict \<Rightarrow> pyerror + pyval" where
  "nb_genres book_data =
     (if truthy (dict_get book_data ''genres'')
      then (case py_iter (dict_get_default book_data ''genres'' (PList [])) of
              Inl e \<Rightarrow> Inl e
            | Inr gs \<Rightarrow> Inr (PList (names_of gs)))
      else Inr (PList []))"

text \<open>Lines 67 to 70: one tag group of \<^verbatim>\<open>storygraph_tags\<close>.\<close>

definition nb_tag_group :: "pydict \<Rightarrow> string \<Rightarrow> pyval" where
  "nb_tag_group book_data k =
     (let storygraph_tags = py_or (dict_get book_data ''storygraph_tags'') (PDict [])
      in case storygraph_tags of
           PDict t \<Rightarrow> dict_get_default t k (PList [])
         | _ \<Rightarrow> PList [])"

text \<open>Lines 73 to 76: one text of \<^verbatim>\<open>review_summary\<close>.\<close>

definition nb_summary :: "pydict \<Rightarrow> string \<Rightarrow> pyval" where
  "nb_summary book_data k =
     (let review_summary = py_or (dict_get book_data ''review_summary'') (PDict [])
      in case review_summary of
           PDict r \<Rightarrow> dict_get r k
         | _ \<Rightarrow> PStr [])"

text \<open>
  Lines 79 to 82. Line 80 tests \<^verbatim>\<open>isinstance(reading_progress, dict)\<close>; lines 81 and
  82 call \<^verbatim>\<open>reading_progress.get\<close> without the test.
\<close>

definition nb_reading_progress :: "pydict \<Rightarrow> pyval" where
  "nb_reading_progress book_data = py_or (dict_get book_data ''reading_progress'') (PDict [])"

definition nb_read_status :: "pydict \<Rightarrow> pyval" where
  "nb_read_status book_data =
     (case nb_reading_progress book_data of
        PDict r \<Rightarrow> dict_get r ''status''
      | _ \<Rightarrow> PStr [])"

text \<open>Lines 91 to 94.\<close>

definition nb_attribute_names :: "pydict \<Rightarrow> pyval" where
  "nb_attribute_names book =
     (let attributes = py_or (dict_get_default book ''attributes'' (PList [])) (PList [])
      in case (if \<not> isinstance_list attributes then PList [] else attributes) of
           PList xs \<Rightarrow> PList (names_of xs)
         | _ \<Rightarrow> PList [])"

text \<open>
  Line 132:
  \<^verbatim>\<open>book.get("emoji_reaction") or (book.get("emoji") or {}).get("content") or ""\<close>
\<close>

definition nb_emoji_reaction :: "pydict \<Rightarrow> pyerror + pyval" where
  "nb_emoji_reaction book =
     (if truthy (dict_get book ''emoji_reaction'') then Inr (dict_get book ''emoji_reaction'')
      else case method_get (py_or (dict_get book ''emoji'') (PDict [])) ''content'' of
             Inl e \<Rightarrow> Inl e
           | Inr content \<Rightarrow> Inr (py_or content (PStr [])))"

text \<open>
  The dictionary display of lines 99 to 134, from the values computed before it.
\<close>

definition nb_record ::
  "pydict \<Rightarrow> pydict \<Rightarrow> pyval \<Rightarrow> pyval \<Rightarrow> pyval \<Rightarrow> pyval \<Rightarrow> pydict" where
  "nb_record book book_data genres current_page total_pages emoji_reaction =
     [(''title'', py_or (dict_get book_data ''title'') (dict_get book ''title'')),
      (''subtitle'', py_or (dict_get book_data ''subtitle'') (PStr [])),
      (''authors'', nb_authors book_data book),
      (''isbn'', py_or (dict_get book_data ''isbn'') (dict_get book ''isbn'')),
      (''imprint'', py_or (py_or (dict_get book_data ''publisher'') (dict_get book_data ''imprint''))
                      (dict_get book ''publisher'')),
      (''page_count'', py_or (py_or (dict_get book_data ''page_count'') (dict_get book_data ''pages''))
                         (dict_get book ''page_count'')),
      (''published_date'', py_or (py_or (dict_get book_data ''published_date'')
                                    (dict_get book_data ''publish_date''))
                             (dict_get book ''published_date'')),
      (''description'', py_or (dict_get book_data ''description'') (PStr [])),
      (''cover_image'', py_or (dict_get book_data ''cover_image'') (PStr [])),
      (''genres'', genres),
      (''storygraph_genres'', nb_tag_group book_data ''genres''),
      (''moods'', nb_tag_group book_data ''moods''),
      (''content_warnings'', nb_tag_group book_data ''content_warnings''),
      (''status'', py_or (nb_read_status book_data) (dict_get book ''status'')),
      (''rating'', dict_get book ''rating''),
      (''review'', py_or (dict_get book ''review'') (PStr [])),
      (''review_summary_liked'', nb_summary book_data ''liked''),
      (''review_summary_disliked'', nb_summary book_data ''disliked''),
      (''review_summary_disagreed'', nb_summary book_data ''disagreed''),
      (''contains_spoilers'', dict_get book ''contains_spoilers''),
      (''did_not_finish'', dict_get book ''did_not_finish''),
      (''review_created_at'', py_or (dict_get book ''review_created_at'') (dict_get book ''created_at'')),
      (''added_at'', dict_get book ''added_at''),
      (''started_reading_at'', py_or (dict_get book_data ''started_reading_at'') (PStr [])),
      (''finished_reading_at'', py_or (dict_get book_data ''finished_reading_at'') (PStr [])),
      (''current_page'', current_page),
      (''total_pages'', total_pages),
      (''characters_rating'', dict_get book ''characters_rating''),
      (''plot_rating'', dict_get book ''plot_rating''),
      (''writing_style_rating'', dict_get book ''writing_style_rating''),
      (''setting_rating'', dict_get book ''setting_rating''),
      (''attributes'', nb_attribute_names book),
      (''emoji_reaction'', emoji_reaction),
      (''spicy_level'', dict_get book ''spicy_level'')]"

text \<open>
  Lines 54 to 134 for a non-empty dictionary. The statements that can raise are run in
  the order of the source: the genres comprehension (line 64), the two unguarded
  \<^verbatim>\<open>reading_progress.get\<close> calls (lines 81 and 82) and the emoji fallback (line 132).
\<close>

definition normalize_dict :: "pydict \<Rightarrow> pyerror + pydict" where
  "normalize_dict book =
     (let book_data = nb_book_data book
      in case nb_genres book_data of
           Inl e \<Rightarrow> Inl e
         | Inr genres \<Rightarrow>
             (case method_get (nb_reading_progress book_data) ''current_page'' of
                Inl e \<Rightarrow> Inl e
              | Inr current_page \<Rightarrow>
                  (case method_get (nb_reading_progress book_data) ''page_count'' of
                     Inl e \<Rightarrow> Inl e
                   | Inr total_pages \<Rightarrow>
                       (case nb_emoji_reaction book of
                          Inl e \<Rightarrow> Inl e
                        | Inr emoji_reaction \<Rightarrow>
                            Inr (nb_record book book_data genres current_page total_pages
                                   emoji_reaction)))))"

text \<open>Line 15: \<^verbatim>\<open>if not book or not isinstance(book, dict)\<close>.\<close>

definition normalize_book :: "pyval \<Rightarrow> pyerror + pydict" where
  "normalize_book book =
     (if \<not> truthy book \<or> \<not> isinstance_dict book then Inr normalize_defaults
      else case book of
             PDict b \<Rightarrow> normalize_dict b
           | _ \<Rightarrow> Inr normalize_defaults)"

section \<open>Exporters (\<^verbatim>\<open>exporters.py\<close>)\<close>

subsection \<open>The environment\<close>

text \<open>
  A path is its list of components; \<^verbatim>\<open>output_path.parent\<close> drops the last one.
  What an exporter hands to the file it has opened: the header and the rows given to
  \<^verbatim>\<open>csv.DictWriter\<close>, the value given to \<^verbatim>\<open>json.dump\<close>, the lines given to
  \<^verbatim>\<open>writelines\<close>.
\<close>

type_synonym path = "string list"

definition path_parent :: "path \<Rightarrow> path" where
  "path_parent p = butlast p"

datatype chunk =
    CsvHeader "string list"
  | CsvRow pydict
  | JsonDump pyval
  | TextLines "string list"

text \<open>
  The library and operating-system calls the exporters make are parameters: the file
  system with its three operations (each returns the exception it raised, if any, and the
  file system it left), \<^verbatim>\<open>float\<close> on an integer and on a string,
  \<^verbatim>\<open>datetime.fromisoformat(s).strftime("%Y-%m-%d")\<close> (\<open>None\<close> for its
  \<^verbatim>\<open>ValueError\<close>), \<^verbatim>\<open>str\<close> of a float, a list or a dictionary, and
  \<^verbatim>\<open>datetime.now().strftime("%Y-%m-%d %H:%M:%S")\<close>.
\<close>

record 'fs pyenv =
  mkdir_parents :: "path \<Rightarrow> 'fs \<Rightarrow> pyerror option \<times> 'fs"
  open_write :: "path \<Rightarrow> 'fs \<Rightarrow> pyerror option \<times> 'fs"
  write_chunk :: "path \<Rightarrow> chunk \<Rightarrow> 'fs \<Rightarrow> pyerror option \<times> 'fs"
  float_of_int :: "int \<Rightarrow> pyerror + pyfloat"
  float_of_str :: "string \<Rightarrow> pyerror + pyfloat"
  iso_date :: "string \<Rightarrow> string option"
  str_other :: "pyval \<Rightarrow> string"
  now_stamp :: string

text \<open>
  Writing a sequence of chunks to the open file, one after the other, up to the first
  that fails: what the file has received when a loop of writes ends.
\<close>

fun write_chunks :: "'fs pyenv \<Rightarrow> path \<Rightarrow> chunk list \<Rightarrow> 'fs \<Rightarrow> pyerror option \<times> 'fs" where
  "write_chunks env p [] fs = (None, fs)"
| "write_chunks env p (c # cs) fs =
     (case write_chunk env p c fs of
        (Some e, fs') \<Rightarrow> (Some e, fs')
      | (None, fs') \<Rightarrow> write_chunks env p cs fs')"

subsection \<open>Strings\<close>

text \<open>\<^verbatim>\<open>sep.join(parts)\<close> on strings.\<close>

fun join_strs :: "string \<Rightarrow> string list \<Rightarrow> string" where
  "join_strs sep [] = []"
| "join_strs sep [x] = x"
| "join_strs sep (x # y # ys) = x @ sep @ join_strs sep (y # ys)"

text \<open>
  \<^verbatim>\<open>sep.join(v)\<close> on a value: \<open>v\<close> must be iterable and each item a string.
\<close>

fun str_items :: "pyval list \<Rightarrow> string list option" where
  "str_items [] = Some []"
| "str_items (PStr s # vs) = (case str_items vs of None \<Rightarrow> None | Some ss \<Rightarrow> Some (s # ss))"
| "str_items (v # vs) = None"

definition py_join :: "string \<Rightarrow> pyval \<Rightarrow> pyerror + string" where
  "py_join sep v =
     (case py_iter v of
        Inl e \<Rightarrow> Inl e
      | Inr items \<Rightarrow>
          (case str_items items of
             None \<Rightarrow> Inl TypeError
           | Some ss \<Rightarrow> Inr (join_strs sep ss)))"

text \<open>\<^verbatim>\<open>s.replace(old, new)\<close> for a one-character \<open>old\<close>.\<close>

definition str_replace_char :: "char \<Rightarrow> string \<Rightarrow> string \<Rightarrow> string" where
  "str_replace_char old new s = concat (map (\<lambda>c. if c = old then new else [c]) s)"

text \<open>Decimal digits of a number, as \<^verbatim>\<open>str\<close> prints an integer.\<close>

fun show_nat :: "nat \<Rightarrow> string" where
  "show_nat n =
     (if n < 10 then [''0123456789'' ! n]
      else show_nat (n div 10) @ [''0123456789'' ! (n mod 10)])"

definition show_int :: "int \<Rightarrow> string" where
  "show_int i = (if i < 0 then CHR ''-'' # show_nat (nat (- i)) else show_nat (nat i))"

text \<open>\<^verbatim>\<open>str(v)\<close>, as an f-string formats a value.\<close>

fun py_str :: "'fs pyenv \<Rightarrow> pyval \<Rightarrow> string" where
  "py_str env (PStr s) = s"
| "py_str env PNone = ''None''"
| "py_str env (PBool b) = (if b then ''True'' else ''False'')"
| "py_str env (PInt i) = show_int i"
| "py_str env v = str_other env v"

subsection \<open>\<^verbatim>\<open>format_authors_list\<close>, \<^verbatim>\<open>extract_isbn\<close>, \<^verbatim>\<open>format_date\<close>\<close>

fun author_name :: "pyval \<Rightarrow> pyval" where
  "author_name (PDict d) = dict_get_default d ''name'' (PStr [])"
| "author_name (PStr s) = PStr s"
| "author_name v = PStr []"

definition format_authors_list :: "pyval \<Rightarrow> pyerror + string" where
  "format_authors_list authors =
     (if \<not> truthy authors \<or> \<not> isinstance_list authors then Inr []
      else case authors of
             PList xs \<Rightarrow> py_join '', '' (PList (filter truthy (map author_name xs)))
           | _ \<Rightarrow> Inr [])"

definition extract_isbn :: "pyval \<Rightarrow> pyerror + string \<times> string" where
  "extract_isbn isbn =
     (if \<not> truthy isbn then Inr ([], [])
      else case isbn of
             PStr s \<Rightarrow>
               (let normalized = str_replace_char CHR ''-'' [] s
                in if py_len normalized = 10 then Inr (normalized, [])
                   else if py_len normalized = 13 then Inr ([], normalized)
                   else Inr (normalized, []))
           | _ \<Rightarrow> Inl AttributeError)"

text \<open>
  \<^verbatim>\<open>format_date\<close> catches \<^verbatim>\<open>ValueError\<close> and \<^verbatim>\<open>AttributeError\<close>: a truthy value
  that is not a string has no \<^verbatim>\<open>replace\<close>, a string that does not parse raises
  \<^verbatim>\<open>ValueError\<close>; both give the empty string.
\<close>

definition format_date :: "'fs pyenv \<Rightarrow> pyval \<Rightarrow> string" where
  "format_date env date_str =
     (if \<not> truthy date_str then []
      else case date_str of
             PStr s \<Rightarrow>
               (case iso_date env (str_replace_char CHR ''Z'' ''+00:00'' s) of
                  None \<Rightarrow> []
                | Some d \<Rightarrow> d)
           | _ \<Rightarrow> [])"

subsection \<open>\<^verbatim>\<open>export_to_csv\<close>\<close>

definition csv_fieldnames :: "string list" where
  "csv_fieldnames =
    [''Title'', ''Subtitle'', ''Author(s)'', ''ISBN-10'', ''ISBN-13'', ''Publisher'', ''Pages'',
     ''Published Date'', ''Genres'', ''Moods'', ''Content Warnings'', ''Status'', ''Rating'',
     ''Characters Rating'', ''Plot Rating'', ''Writing Style Rating'', ''Setting Rating'',
     ''Review'', ''Review Summary - Liked'', ''Review Summary - Disliked'',
     ''Review Summary - Disagreed'', ''Attributes/Tags'', ''Emoji Reaction'',
     ''Contains Spoilers'', ''Did Not Finish'', ''Started Reading'', ''Finished Reading'',
     ''Date Added'']"

text \<open>\<^verbatim>\<open>"Yes" if v else "No"\<close>\<close>

definition yes_no :: "pyval \<Rightarrow> pyval" where
  "yes_no v = PStr (if truthy v then ''Yes'' else ''No'')"

text \<open>
  Lines 247 to 280: the dictionary display of the row, from the values computed before it.
\<close>

definition csv_row_dict ::
  "'fs pyenv \<Rightarrow> pydict \<Rightarrow> string \<Rightarrow> string \<Rightarrow> string \<Rightarrow> string \<Rightarrow> string \<Rightarrow> string \<Rightarrow> string \<Rightarrow> pydict" where
  "csv_row_dict env book isbn10 isbn13 authors genres moods content_warnings attributes =
     [(''Title'', dict_get_default book ''title'' (PStr [])),
      (''Subtitle'', dict_get_default book ''subtitle'' (PStr [])),
      (''Author(s)'', PStr authors),
      (''ISBN-10'', PStr isbn10),
      (''ISBN-13'', PStr isbn13),
      (''Publisher'', dict_get_default book ''imprint'' (PStr [])),
      (''Pages'', dict_get_default book ''page_count'' (PStr [])),
      (''Published Date'', PStr (format_date env (dict_get book ''published_date''))),
      (''Genres'', PStr genres),
      (''Moods'', PStr moods),
      (''Content Warnings'', PStr content_warnings),
      (''Status'', dict_get_default book ''status'' (PStr [])),
      (''Rating'', dict_get_default book ''rating'' (PStr [])),
      (''Characters Rating'', dict_get_default book ''characters_rating'' (PStr [])),
      (''Plot Rating'', dict_get_default book ''plot_rating'' (PStr [])),
      (''Writing Style Rating'', dict_get_default book ''writing_style_rating'' (PStr [])),
      (''Setting Rating'', dict_get_default book ''setting_rating'' (PStr [])),
      (''Review'', dict_get_default book ''review'' (PStr [])),
      (''Review Summary - Liked'', dict_get_default book ''review_summary_liked'' (PStr [])),
      (''Review Summary - Disliked'', dict_get_default book ''review_summary_disliked'' (PStr [])),
      (''Review Summary - Disagreed'', dict_get_default book ''review_summary_disagreed'' (PStr [])),
      (''Attributes/Tags'', PStr attributes),
      (''Emoji Reaction'', dict_get_default book ''emoji_reaction'' (PStr [])),
      (''Contains Spoilers'', yes_no (dict_get book ''contains_spoilers'')),
      (''Did Not Finish'', yes_no (dict_get book ''did_not_finish'')),
      (''Started Reading'', PStr (format_date env (dict_get book ''started_reading_at''))),
      (''Finished Reading'', PStr (format_date env (dict_get book ''finished_reading_at''))),
      (''Date Added'',
         PStr (format_date env
                 (py_or (py_or (dict_get book ''review_created_at'') (dict_get book ''added_at''))
                    (dict_get book ''created_at''))))]"

text \<open>
  Lines 244 to 280: the row of a normalized book. The calls that can raise are run in the
  order of the source: \<^verbatim>\<open>extract_isbn\<close>, \<^verbatim>\<open>format_authors_list\<close>, then the four
  \<^verbatim>\<open>"; ".join\<close>.
\<close>

definition csv_row :: "'fs pyenv \<Rightarrow> pydict \<Rightarrow> pyerror + pydict" where
  "csv_row env book =
     (case extract_isbn (dict_get book ''isbn'') of
        Inl e \<Rightarrow> Inl e
      | Inr (isbn10, isbn13) \<Rightarrow>
     (case format_authors_list (dict_get_default book ''authors'' (PList [])) of
        Inl e \<Rightarrow> Inl e
      | Inr authors \<Rightarrow>
     (case py_join ''; '' (dict_get_default book ''genres'' (PList [])) of
        Inl e \<Rightarrow> Inl e
      | Inr genres \<Rightarrow>
     (case py_join ''; '' (dict_get_default book ''moods'' (PList [])) of
        Inl e \<Rightarrow> Inl e
      | Inr moods \<Rightarrow>
     (case py_join ''; '' (dict_get_default book ''content_warnings'' (PList [])) of
        Inl e \<Rightarrow> Inl e
      | Inr content_warnings \<Rightarrow>
     (case py_join ''; '' (dict_get_default book ''attributes'' (PList [])) of
        Inl e \<Rightarrow> Inl e
      | Inr attributes \<Rightarrow>
          Inr (csv_row_dict env book isbn10 isbn13 authors genres moods content_warnings
                 attributes)))))))"

text \<open>Lines 243 to 280: the row of one entry of \<open>books\<close>.\<close>

definition csv_book_row :: "'fs pyenv \<Rightarrow> pyval \<Rightarrow> pyerror + pydict" where
  "csv_book_row env book =
     (case normalize_book book of
        Inl e \<Rightarrow> Inl e
      | Inr nb \<Rightarrow> csv_row env nb)"

text \<open>
  Lines 240 to 282: the loop, on the open file. A \<^verbatim>\<open>None\<close> entry is skipped; an
  exception leaves the file with the rows written before it.
\<close>

fun csv_loop :: "'fs pyenv \<Rightarrow> path \<Rightarrow> pyval list \<Rightarrow> 'fs \<Rightarrow> pyerror option \<times> 'fs" where
  "csv_loop env p [] fs = (None, fs)"
| "csv_loop env p (book # books) fs =
     (if book = PNone then csv_loop env p books fs
      else case csv_book_row env book of
             Inl e \<Rightarrow> (Some e, fs)
           | Inr row \<Rightarrow>
               (case write_chunk env p (CsvRow row) fs of
                  (Some e, fs') \<Rightarrow> (Some e, fs')
                | (None, fs') \<Rightarrow> csv_loop env p books fs'))"

text \<open>
  An exporter returns the path, or the exception it raised, with the file system it left.
\<close>

definition export_to_csv ::
  "'fs pyenv \<Rightarrow> pyval list \<Rightarrow> path \<Rightarrow> 'fs \<Rightarrow> (pyerror + path) \<times> 'fs" where
  "export_to_csv env books output_path fs =
     (if books = [] then (Inl (ValueError ''No books to export''), fs)
      else case mkdir_parents env (path_parent output_path) fs of
             (Some e, fs1) \<Rightarrow> (Inl e, fs1)
           | (None, fs1) \<Rightarrow>
               (case open_write env output_path fs1 of
                  (Some e, fs2) \<Rightarrow> (Inl e, fs2)
                | (None, fs2) \<Rightarrow>
                    (case write_chunk env output_path (CsvHeader csv_fieldnames) fs2 of
                       (Some e, fs3) \<Rightarrow> (Inl e, fs3)
                     | (None, fs3) \<Rightarrow>
                         (case csv_loop env output_path books fs3 of
                            (Some e, fs4) \<Rightarrow> (Inl e, fs4)
                          | (None, fs4) \<Rightarrow> (Inr output_path, fs4)))))"

subsection \<open>\<^verbatim>\<open>export_to_json\<close>\<close>

text \<open>
  \<^verbatim>\<open>float(v)\<close>: a float is returned as it is, a boolean is 1.0 or 0.0, an integer and a
  string are converted by the library, anything else raises \<^verbatim>\<open>TypeError\<close>.
\<close>

fun py_float :: "'fs pyenv \<Rightarrow> pyval \<Rightarrow> pyerror + pyfloat" where
  "py_float env (PFloat f) = Inr f"
| "py_float env (PBool b) = Inr (FFinite (if b then 1 else 0))"
| "py_float env (PInt i) = float_of_int env i"
| "py_float env (PStr s) = float_of_str env s"
| "py_float env v = Inl TypeError"

text \<open>\<^verbatim>\<open>float(v) if v else None\<close>\<close>

definition float_or_none :: "'fs pyenv \<Rightarrow> pyval \<Rightarrow> pyerror + pyval" where
  "float_or_none env v =
     (if truthy v
      then (case py_float env v of Inl e \<Rightarrow> Inl e | Inr f \<Rightarrow> Inr (PFloat f))
      else Inr PNone)"

text \<open>
  Lines 314 to 356: the dictionary display of the object, from the values computed before
  it.
\<close>

definition json_object ::
  "'fs pyenv \<Rightarrow> pydict \<Rightarrow> string \<Rightarrow> string \<Rightarrow> string \<Rightarrow> pyval \<Rightarrow> pyval \<Rightarrow> pyval \<Rightarrow> pyval \<Rightarrow> pyval \<Rightarrow> pyval" where
  "json_object env book isbn10 isbn13 authors rating characters plot writing_style setting =
     PDict
       [(''title'', dict_get book ''title''),
        (''subtitle'', dict_get book ''subtitle''),
        (''authors'', PStr authors),
        (''isbn10'', PStr isbn10),
        (''isbn13'', PStr isbn13),
        (''publisher'', dict_get book ''imprint''),
        (''pages'', dict_get book ''page_count''),
        (''published_date'', PStr (format_date env (dict_get book ''published_date''))),
        (''description'', dict_get book ''description''),
        (''cover_image'', dict_get book ''cover_image''),
        (''genres'', dict_get book ''genres''),
        (''moods'', dict_get book ''moods''),
        (''content_warnings'', dict_get book ''content_warnings''),
        (''status'', dict_get book ''status''),
        (''rating'', rating),
        (''detailed_ratings'',
           PDict [(''characters'', characters),
                  (''plot'', plot),
                  (''writing_style'', writing_style),
                  (''setting'', setting)]),
        (''review'', dict_get book ''review''),
        (''review_summary'',
           PDict [(''liked'', dict_get book ''review_summary_liked''),
                  (''disliked'', dict_get book ''review_summary_disliked''),
                  (''disagreed'', dict_get book ''review_summary_disagreed'')]),
        (''contains_spoilers'', dict_get book ''contains_spoilers''),
        (''did_not_finish'', dict_get book ''did_not_finish''),
        (''attributes'', dict_get book ''attributes''),
        (''emoji_reaction'', dict_get book ''emoji_reaction''),
        (''spicy_level'', dict_get book ''spicy_level''),
        (''started_reading'', PStr (format_date env (dict_get book ''started_reading_at''))),
        (''finished_reading'', PStr (format_date env (dict_get book ''finished_reading_at''))),
        (''current_page'', dict_get book ''current_page''),
        (''total_pages'', dict_get book ''total_pages''),
        (''date_added'',
           PStr (format_date env
                   (py_or (py_or (dict_get book ''review_created_at'') (dict_get book ''added_at''))
                      (dict_get book ''created_at''))))]"

text \<open>
  Lines 311 to 356: the object written for a normalized book. The calls that can raise are
  run in the order of the source.
\<close>

definition json_clean_book :: "'fs pyenv \<Rightarrow> pydict \<Rightarrow> pyerror + pyval" where
  "json_clean_book env book =
     (case extract_isbn (dict_get book ''isbn'') of
        Inl e \<Rightarrow> Inl e
      | Inr (isbn10, isbn13) \<Rightarrow>
     (case format_authors_list (dict_get_default book ''authors'' (PList [])) of
        Inl e \<Rightarrow> Inl e
      | Inr authors \<Rightarrow>
     (case float_or_none env (dict_get book ''rating'') of
        Inl e \<Rightarrow> Inl e
      | Inr rating \<Rightarrow>
     (case float_or_none env (dict_get book ''characters_rating'') of
        Inl e \<Rightarrow> Inl e
      | Inr characters \<Rightarrow>
     (case float_or_none env (dict_get book ''plot_rating'') of
        Inl e \<Rightarrow> Inl e
      | Inr plot \<Rightarrow>
     (case float_or_none env (dict_get book ''writing_style_rating'') of
        Inl e \<Rightarrow> Inl e
      | Inr writing_style \<Rightarrow>
     (case float_or_none env (dict_get book ''setting_rating'') of
        Inl e \<Rightarrow> Inl e
      | Inr setting \<Rightarrow>
          Inr (json_object env book isbn10 isbn13 authors rating characters plot writing_style
                 setting))))))))"

text \<open>Lines 306 to 357: the loop that fills \<^verbatim>\<open>clean_books\<close>.\<close>

fun json_loop :: "'fs pyenv \<Rightarrow> pyval list \<Rightarrow> pyval list \<Rightarrow> pyerror + pyval list" where
  "json_loop env [] clean_books = Inr clean_books"
| "json_loop env (book # books) clean_books =
     (if book = PNone then json_loop env books clean_books
      else case normalize_book book of
             Inl e \<Rightarrow> Inl e
           | Inr nb \<Rightarrow>
               (case json_clean_book env nb of
                  Inl e \<Rightarrow> Inl e
                | Inr clean_book \<Rightarrow> json_loop env books (clean_books @ [clean_book])))"

definition export_to_json ::
  "'fs pyenv \<Rightarrow> pyval list \<Rightarrow> path \<Rightarrow> 'fs \<Rightarrow> (pyerror + path) \<times> 'fs" where
  "export_to_json env books output_path fs =
     (if books = [] then (Inl (ValueError ''No books to export''), fs)
      else case mkdir_parents env (path_parent output_path) fs of
             (Some e, fs1) \<Rightarrow> (Inl e, fs1)
           | (None, fs1) \<Rightarrow>
               (case json_loop env books [] of
                  Inl e \<Rightarrow> (Inl e, fs1)
                | Inr clean_books \<Rightarrow>
                    (case open_write env output_path fs1 of
                       (Some e, fs2) \<Rightarrow> (Inl e, fs2)
                     | (None, fs2) \<Rightarrow>
                         (case write_chunk env output_path (JsonDump (PList clean_books)) fs2 of
                            (Some e, fs3) \<Rightarrow> (Inl e, fs3)
                          | (None, fs3) \<Rightarrow> (Inr output_path, fs3)))))"

subsection \<open>\<^verbatim>\<open>export_to_markdown\<close>\<close>

text \<open>
  The keys of \<^verbatim>\<open>by_status\<close> are the statuses of the normalized books, whatever values
  they are. Two keys are the same key when they are equal in Python: numbers (booleans
  included) by value, NaN equal to nothing, strings and \<^verbatim>\<open>None\<close> to themselves.
\<close>

fun as_number :: "pyval \<Rightarrow> pyfloat option" where
  "as_number (PBool b) = Some (FFinite (if b then 1 else 0))"
| "as_number (PInt i) = Some (FFinite (of_int i))"
| "as_number (PFloat f) = Some f"
| "as_number v = None"

definition key_eq :: "pyval \<Rightarrow> pyval \<Rightarrow> bool" where
  "key_eq a b =
     (case as_number a of
        Some x \<Rightarrow> (case as_number b of Some y \<Rightarrow> x = y \<and> x \<noteq> FNan | None \<Rightarrow> False)
      | None \<Rightarrow> (case as_number b of Some y \<Rightarrow> False | None \<Rightarrow> a = b))"

type_synonym by_status = "(pyval \<times> pydict list) list"

fun status_lookup :: "by_status \<Rightarrow> pyval \<Rightarrow> pydict list option" where
  "status_lookup [] s = None"
| "status_lookup ((k, bs) # rest) s = (if key_eq k s then Some bs else status_lookup rest s)"

text \<open>
  Lines 397 to 399: \<^verbatim>\<open>if status not in by_status: by_status[status] = []\<close>, then
  \<^verbatim>\<open>by_status[status].append(book)\<close>.
\<close>

fun status_append :: "by_status \<Rightarrow> pyval \<Rightarrow> pydict \<Rightarrow> by_status" where
  "status_append [] s book = [(s, [book])]"
| "status_append ((k, bs) # rest) s book =
     (if key_eq k s then (k, bs @ [book]) # rest else (k, bs) # status_append rest s book)"

text \<open>Lines 392 to 399. Testing membership hashes the status, which can raise.\<close>

fun md_group :: "pyval list \<Rightarrow> by_status \<Rightarrow> pyerror + by_status" where
  "md_group [] by_status = Inr by_status"
| "md_group (book # books) by_status =
     (if book = PNone then md_group books by_status
      else case normalize_book book of
             Inl e \<Rightarrow> Inl e
           | Inr nb \<Rightarrow>
               (let status = dict_get_default nb ''status'' (PStr ''unknown'')
                in if \<not> hashable status then Inl TypeError
                   else md_group books (status_append by_status status nb)))"

definition nl :: string where
  "nl = [CHR 0x0A]"

text \<open>The arrow of line 472, U+2192, in UTF-8.\<close>

definition arrow :: string where
  "arrow = [CHR 0xE2, CHR 0x86, CHR 0x92]"

text \<open>
  \<^verbatim>\<open>s.title()\<close> on ASCII letters: a letter after a letter is lowered, any other letter
  is raised. The code calls it on the three statuses of \<^verbatim>\<open>status_order\<close> only.
\<close>

definition is_upper :: "char \<Rightarrow> bool" where
  "is_upper c = (65 \<le> (of_char c :: nat) \<and> (of_char c :: nat) \<le> 90)"

definition is_lower :: "char \<Rightarrow> bool" where
  "is_lower c = (97 \<le> (of_char c :: nat) \<and> (of_char c :: nat) \<le> 122)"

definition to_upper :: "char \<Rightarrow> char" where
  "to_upper c = (if is_lower c then char_of ((of_char c :: nat) - 32) else c)"

definition to_lower :: "char \<Rightarrow> char" where
  "to_lower c = (if is_upper c then char_of ((of_char c :: nat) + 32) else c)"

fun title_from :: "bool \<Rightarrow> string \<Rightarrow> string" where
  "title_from after_letter [] = []"
| "title_from after_letter (c # cs) =
     (if is_upper c \<or> is_lower c
      then (if after_letter then to_lower c else to_upper c) # title_from True cs
      else c # title_from False cs)"

definition py_title :: "string \<Rightarrow> string" where
  "py_title s = title_from False s"

definition status_order :: "string list" where
  "status_order = [''finished'', ''reading'', ''unread'']"

definition status_labels :: "(string \<times> string) list" where
  "status_labels =
     [(''finished'', ''Finished''),
      (''reading'', ''Currently Reading''),
      (''unread'', ''Want to Read'')]"

text \<open>Lines 434 to 455 and 466 to 480: the parts of a book's entry that cannot raise.\<close>

definition md_rating_lines :: "'fs pyenv \<Rightarrow> pydict \<Rightarrow> string list" where
  "md_rating_lines env book =
     (let rating = dict_get book ''rating'';
          emoji = dict_get_default book ''emoji_reaction'' (PStr []);
          char_rating = dict_get book ''characters_rating'';
          plot_rating = dict_get book ''plot_rating'';
          writing_rating = dict_get book ''writing_style_rating'';
          setting_rating = dict_get book ''setting_rating''
      in (if truthy rating
          then [''**Rating:** '' @ py_str env rating @ ''/5'' @
                (if truthy emoji then '' '' @ py_str env emoji else []) @ nl]
          else []) @
         (if truthy char_rating \<or> truthy plot_rating \<or> truthy writing_rating \<or> truthy setting_rating
          then [''**Detailed Ratings:**'' @ nl] @
               (if truthy char_rating
                then [''- Characters: '' @ py_str env char_rating @ ''/5'' @ nl] else []) @
               (if truthy plot_rating
                then [''- Plot: '' @ py_str env plot_rating @ ''/5'' @ nl] else []) @
               (if truthy writing_rating
                then [''- Writing Style: '' @ py_str env writing_rating @ ''/5'' @ nl] else []) @
               (if truthy setting_rating
                then [''- Setting: '' @ py_str env setting_rating @ ''/5'' @ nl] else [])
          else []))"

definition md_date_lines :: "'fs pyenv \<Rightarrow> pydict \<Rightarrow> string list" where
  "md_date_lines env book =
     (let started = format_date env (dict_get book ''started_reading_at'');
          finished = format_date env (dict_get book ''finished_reading_at'')
      in if started \<noteq> [] \<or> finished \<noteq> []
         then [''**Read Dates:** ''] @
              (if started \<noteq> [] then [''Started '' @ started] else []) @
              (if finished \<noteq> []
               then (if started \<noteq> [] then ['' '' @ arrow @ '' Finished '' @ finished]
                     else [''Finished '' @ finished])
               else []) @
              [nl]
         else [])"

text \<open>
  \<^verbatim>\<open>if v: lines.append(f"**Label:** {', '.join(v)}\n")\<close> of lines 457 to 464.
\<close>

definition md_joined_line :: "string \<Rightarrow> pyval \<Rightarrow> pyerror + string list" where
  "md_joined_line label v =
     (if truthy v
      then (case py_join '', '' v of
              Inl e \<Rightarrow> Inl e
            | Inr s \<Rightarrow> Inr [label @ s @ nl])
      else Inr [])"

text \<open>Lines 414 to 480: the lines of one book of a section.\<close>

definition md_book :: "'fs pyenv \<Rightarrow> pydict \<Rightarrow> pyerror + string list" where
  "md_book env book =
     (let title = dict_get_default book ''title'' (PStr ''Unknown'');
          subtitle = dict_get_default book ''subtitle'' (PStr []);
          review = dict_get book ''review''
      in case format_authors_list (dict_get_default book ''authors'' (PList [])) of
           Inl e \<Rightarrow> Inl e
         | Inr authors \<Rightarrow>
        (case md_joined_line ''**Genres:** '' (dict_get_default book ''genres'' (PList [])) of
           Inl e \<Rightarrow> Inl e
         | Inr genres_lines \<Rightarrow>
        (case md_joined_line ''**Moods:** '' (dict_get_default book ''moods'' (PList [])) of
           Inl e \<Rightarrow> Inl e
         | Inr moods_lines \<Rightarrow>
        (case md_joined_line ''**Tags:** '' (dict_get_default book ''attributes'' (PList [])) of
           Inl e \<Rightarrow> Inl e
         | Inr tags_lines \<Rightarrow>
           Inr ([''### '' @ py_str env title @ nl] @
                (if truthy subtitle then [''*'' @ py_str env subtitle @ ''*'' @ nl @ nl] else []) @
                (if authors \<noteq> [] then [''**Author(s):** '' @ authors @ nl] else []) @
                md_rating_lines env book @
                genres_lines @ moods_lines @ tags_lines @
                md_date_lines env book @
                (if truthy review
                 then [nl @ ''**Review:**'' @ nl @ nl @ py_str env review @ nl] else []) @
                [nl @ ''---'' @ nl])))))"

fun md_books :: "'fs pyenv \<Rightarrow> pydict list \<Rightarrow> pyerror + string list" where
  "md_books env [] = Inr []"
| "md_books env (book # books) =
     (case md_book env book of
        Inl e \<Rightarrow> Inl e
      | Inr ls \<Rightarrow>
          (case md_books env books of
             Inl e \<Rightarrow> Inl e
           | Inr rest \<Rightarrow> Inr (ls @ rest)))"

text \<open>
  Lines 408 to 480: \<^verbatim>\<open>for status in status_order\<close>. The loop runs over the three
  statuses of \<^verbatim>\<open>status_order\<close> and over no other key of \<^verbatim>\<open>by_status\<close>.
\<close>

fun md_sections :: "'fs pyenv \<Rightarrow> by_status \<Rightarrow> string list \<Rightarrow> pyerror + string list" where
  "md_sections env by_status [] = Inr []"
| "md_sections env by_status (status # statuses) =
     (case status_lookup by_status (PStr status) of
        None \<Rightarrow> md_sections env by_status statuses
      | Some bs \<Rightarrow>
          (let status_title = (case map_of status_labels status of
                                 Some label \<Rightarrow> label
                               | None \<Rightarrow> py_title status)
           in case md_books env bs of
                Inl e \<Rightarrow> Inl e
              | Inr body \<Rightarrow>
                  (case md_sections env by_status statuses of
                     Inl e \<Rightarrow> Inl e
                   | Inr rest \<Rightarrow>
                       Inr ([nl @ ''## '' @ status_title @ '' ('' @ show_nat (length bs) @ '')'' @ nl]
                            @ body @ rest))))"

text \<open>Lines 383 to 480: the lines of the document.\<close>

definition md_lines :: "'fs pyenv \<Rightarrow> pyval list \<Rightarrow> pyerror + string list" where
  "md_lines env books =
     (let header = [''# My Fable Book Library'' @ nl,
                    ''Exported on: '' @ now_stamp env @ nl,
                    ''Total books: '' @ show_nat (length books) @ nl,
                    nl @ ''---'' @ nl]
      in case md_group books [] of
           Inl e \<Rightarrow> Inl e
         | Inr by_status \<Rightarrow>
             (case md_sections env by_status status_order of
                Inl e \<Rightarrow> Inl e
              | Inr sections \<Rightarrow> Inr (header @ sections)))"

definition export_to_markdown ::
  "'fs pyenv \<Rightarrow> pyval list \<Rightarrow> path \<Rightarrow> 'fs \<Rightarrow> (pyerror + path) \<times> 'fs" where
  "export_to_markdown env books output_path fs =
     (if books = [] then (Inl (ValueError ''No books to export''), fs)
      else case mkdir_parents env (path_parent output_path) fs of
             (Some e, fs1) \<Rightarrow> (Inl e, fs1)
           | (None, fs1) \<Rightarrow>
               (case md_lines env books of
                  Inl e \<Rightarrow> (Inl e, fs1)
                | Inr lines \<Rightarrow>
                    (case open_write env output_path fs1 of
                       (Some e, fs2) \<Rightarrow> (Inl e, fs2)
                     | (None, fs2) \<Rightarrow>
                         (case write_chunk env output_path (TextLines lines) fs2 of
                            (Some e, fs3) \<Rightarrow> (Inl e, fs3)
                          | (None, fs3) \<Rightarrow> (Inr output_path, fs3)))))"

subsection \<open>An environment for examples\<close>

text \<open>
  A stand-in for the library and the operating system, used to evaluate the exporters on
  concrete inputs: the file system is a list of files with the chunks written to each,
  every call on it succeeds, integers up to \<open>2\<^sup>5\<^sup>3\<close> in size convert to floats exactly,
  no string converts to a float, and a string that starts with ten characters shaped
  \<^verbatim>\<open>YYYY-MM-DD\<close> is taken for a timestamp of that day.
\<close>

type_synonym demo_fs = "(path \<times> chunk list) list"

definition demo_env :: "demo_fs pyenv" where
  "demo_env =
     \<lparr> mkdir_parents = (\<lambda>p fs. (None, fs)),
       open_write = (\<lambda>p fs. (None, AList.update p [] fs)),
       write_chunk = (\<lambda>p c fs. (None, AList.map_entry p (\<lambda>cs. cs @ [c]) fs)),
       float_of_int = (\<lambda>i. if \<bar>i\<bar> \<le> 2 ^ 53 then Inr (FFinite (of_int i)) else Inl OverflowError),
       float_of_str = (\<lambda>s. Inl (ValueError ''could not convert string to float'')),
       iso_date = (\<lambda>s. if 10 \<le> length s \<and> s ! 4 = CHR ''-'' \<and> s ! 7 = CHR ''-''
                        then Some (take 10 s) else None),
       str_other = (\<lambda>v. ''?''),
       now_stamp = ''2024-01-01 00:00:00'' \<rparr>"

section \<open>The review merger on a heap\<close>

text \<open>
  Whether \<^verbatim>\<open>merge_reviews_with_books\<close> changes its arguments cannot be read off values:
  the same function is modelled again on a store of objects. A list or a dictionary is an
  object at an address; a list item or a dictionary value is an immediate value or a
  reference to an object. The heap is the list of its objects, the address of an object is
  its index, and a new object is appended.
\<close>

datatype href = HNone | HBool bool | HInt int | HFloat pyfloat | HStr string | HRef nat

datatype hobj = HList "href list" | HDict "(string \<times> href) list"

type_synonym heap = "hobj list"

definition heap_alloc :: "heap \<Rightarrow> hobj \<Rightarrow> nat \<times> heap" where
  "heap_alloc h obj = (length h, h @ [obj])"

text \<open>The entries of the dictionary a value refers to, if it refers to one.\<close>

definition heap_dict :: "heap \<Rightarrow> href \<Rightarrow> (string \<times> href) list option" where
  "heap_dict h v =
     (case v of
        HRef a \<Rightarrow> (if a < length h then (case h ! a of HDict d \<Rightarrow> Some d | HList xs \<Rightarrow> None) else None)
      | _ \<Rightarrow> None)"

fun h_truthy :: "heap \<Rightarrow> href \<Rightarrow> bool" where
  "h_truthy h HNone = False"
| "h_truthy h (HBool b) = b"
| "h_truthy h (HInt i) = (i \<noteq> 0)"
| "h_truthy h (HFloat f) = (f \<noteq> FFinite 0)"
| "h_truthy h (HStr s) = (s \<noteq> [])"
| "h_truthy h (HRef a) =
     (a < length h \<and> (case h ! a of HList xs \<Rightarrow> xs \<noteq> [] | HDict d \<Rightarrow> d \<noteq> []))"

definition h_get :: "(string \<times> href) list \<Rightarrow> string \<Rightarrow> href" where
  "h_get d k = (case map_of d k of None \<Rightarrow> HNone | Some v \<Rightarrow> v)"

text \<open>\<^verbatim>\<open>xs.append(v)\<close> on the list at address \<open>a\<close>.\<close>

definition list_append_h :: "heap \<Rightarrow> nat \<Rightarrow> href \<Rightarrow> heap" where
  "list_append_h h a v = (case h ! a of HList xs \<Rightarrow> h[a := HList (xs @ [v])] | HDict d \<Rightarrow> h)"

text \<open>
  A heap is closed when every reference in it is the address of one of its objects, as
  every reference of a running program is.
\<close>

definition obj_values :: "hobj \<Rightarrow> href list" where
  "obj_values obj = (case obj of HList xs \<Rightarrow> xs | HDict d \<Rightarrow> map snd d)"

definition heap_closed :: "heap \<Rightarrow> bool" where
  "heap_closed h =
     list_all (\<lambda>obj. list_all (\<lambda>v. case v of HRef a \<Rightarrow> a < length h | _ \<Rightarrow> True) (obj_values obj)) h"

text \<open>
  The body of the \<^verbatim>\<open>try\<close> block for the dictionary at address \<open>book\<close>, with
  \<open>reviews\<close> and \<open>merged_books\<close> the addresses of the lookup and of the list being
  built. Line 312, \<^verbatim>\<open>dict(book)\<close>, allocates a dictionary with the entries of
  \<open>book\<close>; line 318, \<^verbatim>\<open>merged_book.update(review_data)\<close>, writes to that new
  dictionary; lines 306 and 320 append to \<open>merged_books\<close>.
\<close>

definition merge_try_h :: "heap \<Rightarrow> nat \<Rightarrow> nat \<Rightarrow> nat \<Rightarrow> pyerror option \<times> heap" where
  "merge_try_h h book reviews merged_books =
     (case heap_dict h (HRef book) of
        None \<Rightarrow> (None, h)
      | Some entries \<Rightarrow>
          let book_data = (if heap_dict h (h_get entries ''book'') \<noteq> None
                           then h_get entries ''book'' else HRef book)
          in if \<not> h_truthy h book_data \<or> heap_dict h book_data = None
             then (None, list_append_h h merged_books (HRef book))
             else
               let book_id = (case heap_dict h book_data of
                                Some bd \<Rightarrow> h_get bd ''id''
                              | None \<Rightarrow> HNone);
                   (merged_book, h1) = heap_alloc h (HDict entries)
               in if \<not> h_truthy h1 book_id
                  then (None, list_append_h h1 merged_books (HRef merged_book))
                  else
                    (case book_id of
                       HRef a \<Rightarrow> (Some TypeError, h1)
                     | HStr s \<Rightarrow>
                         (case heap_dict h1 (HRef reviews) of
                            None \<Rightarrow> (None, list_append_h h1 merged_books (HRef merged_book))
                          | Some rs \<Rightarrow>
                              (case map_of rs s of
                                 None \<Rightarrow> (None, list_append_h h1 merged_books (HRef merged_book))
                               | Some review_data \<Rightarrow>
                                   (case heap_dict h1 review_data of
                                      None \<Rightarrow>
                                        (None, list_append_h h1 merged_books (HRef merged_book))
                                    | Some rd \<Rightarrow>
                                        if h_truthy h1 review_data
                                        then (None,
                                              list_append_h
                                                (h1[merged_book := HDict (dict_update entries rd)])
                                                merged_books (HRef merged_book))
                                        else (None,
                                              list_append_h h1 merged_books (HRef merged_book)))))
                     | _ \<Rightarrow> (None, list_append_h h1 merged_books (HRef merged_book))))"

text \<open>
  The loop, over the items the list \<open>books\<close> has when the call starts. (The body writes
  to \<open>merged_books\<close> and to the copy it has allocated, never to \<open>books\<close>, so the
  list the loop runs over stays the one it started with.)
\<close>

fun merge_loop_h :: "heap \<Rightarrow> href list \<Rightarrow> nat \<Rightarrow> nat \<Rightarrow> pyerror option \<times> heap" where
  "merge_loop_h h [] reviews merged_books = (None, h)"
| "merge_loop_h h (book # books) reviews merged_books =
     (case book of
        HRef b \<Rightarrow>
          if heap_dict h book = None then merge_loop_h h books reviews merged_books
          else (case merge_try_h h b reviews merged_books of
                  (None, h') \<Rightarrow> merge_loop_h h' books reviews merged_books
                | (Some e, h') \<Rightarrow>
                    if is_Exception e
                    then merge_loop_h (list_append_h h' merged_books book) books reviews merged_books
                    else (Some e, h'))
      | _ \<Rightarrow> merge_loop_h h books reviews merged_books)"

text \<open>
  The call: \<open>books\<close> is the address of a list, \<open>reviews\<close> the address of the lookup,
  a dictionary with string keys as annotated. The result is the address of the new list
  \<^verbatim>\<open>merged_books\<close>.
\<close>

definition merge_reviews_with_books_h :: "heap \<Rightarrow> nat \<Rightarrow> nat \<Rightarrow> (pyerror + nat) \<times> heap" where
  "merge_reviews_with_books_h h books reviews =
     (let (merged_books, h0) = heap_alloc h (HList [])
      in case h ! books of
           HList items \<Rightarrow>
             (case merge_loop_h h0 items reviews merged_books of
                (None, h') \<Rightarrow> (Inr merged_books, h')
              | (Some e, h') \<Rightarrow> (Inl e, h'))
         | HDict d \<Rightarrow> (Inr merged_books, h0))"

text \<open>
  What an item \<open>v\<close> of the result list is, in the heap \<open>h'\<close> the call has led to,
  for a call started in the heap \<open>h\<close> on the source items \<open>srcs\<close>: either one of the
  source items itself, a dictionary of \<open>h\<close>, or the address of a dictionary allocated
  by the call that holds the entries of a source dictionary, as they are or updated with
  the entries of a dictionary stored in the lookup.
\<close>

definition merged_item :: "heap \<Rightarrow> nat \<Rightarrow> heap \<Rightarrow> href set \<Rightarrow> href \<Rightarrow> bool" where
  "merged_item h reviews h' srcs v =
     ((v \<in> srcs \<and> heap_dict h v \<noteq> None) \<or>
      (\<exists>a src entries.
          v = HRef a \<and> length h < a \<and> a < length h' \<and>
          HRef src \<in> srcs \<and> heap_dict h (HRef src) = Some entries \<and>
          (h' ! a = HDict entries \<or>
           (\<exists>rs s r rd. heap_dict h (HRef reviews) = Some rs \<and> map_of rs s = Some r \<and>
               heap_dict h r = Some rd \<and> h' ! a = HDict (dict_update entries rd)))))"

text \<open>
  The invariant of the loop, for a call started in the heap \<open>h\<close>: the heap \<open>h'\<close>
  reached still begins with the objects of \<open>h\<close>, unchanged, the object allocated
  right after them is the list being built, and each item of that list is a
  \<open>merged_item\<close>.
\<close>

definition merge_inv :: "heap \<Rightarrow> nat \<Rightarrow> heap \<Rightarrow> href set \<Rightarrow> href list \<Rightarrow> bool" where
  "merge_inv h reviews h' srcs out =
     (length h < length h' \<and> take (length h) h' = h \<and> h' ! length h = HList out \<and>
      list_all (merged_item h reviews h' srcs) out)"

section \<open>Properties of the review merger\<close>

lemma all_is_Exception: "is_Exception e"
  by (cases e) simp_all

lemma merge_try_cases:
  obtains (ok) x where "\<And>m. merge_try b rs m = (None, m @ [PDict x])"
        | (raised) e where "\<And>m. merge_try b rs m = (Some e, m)"
proof (cases "\<not> truthy (merge_book_data b) \<or> \<not> isinstance_dict (merge_book_data b)")
  case True
  then have "\<And>m. merge_try b rs m = (None, m @ [PDict b])"
    by (simp add: merge_try_def)
  then show ?thesis by (rule ok)
next
  case False
  define i where "i = (case merge_book_data b of PDict bd \<Rightarrow> dict_get bd ''id'' | _ \<Rightarrow> PNone)"
  show ?thesis
  proof (cases "merge_overlay b i rs")
    case (Inl e)
    with False have "\<And>m. merge_try b rs m = (Some e, m)"
      by (simp add: merge_try_def i_def)
    then show ?thesis by (rule raised)
  next
    case (Inr x)
    with False have "\<And>m. merge_try b rs m = (None, m @ [PDict x])"
      by (simp add: merge_try_def i_def)
    then show ?thesis by (rule ok)
  qed
qed

lemma merge_loop_shape:
  "\<exists>out. (\<forall>m. merge_loop books rs m = Inr (m @ out)) \<and>
         length out = length (filter isinstance_dict books) \<and> list_all isinstance_dict out"
proof (induction books)
  case Nil
  then show ?case by simp
next
  case (Cons book books)
  then obtain out where out: "\<And>m. merge_loop books rs m = Inr (m @ out)"
     "length out = length (filter isinstance_dict books)" "list_all isinstance_dict out" by blast
  show ?case
  proof (cases book)
    case (PDict b)
    show ?thesis
    proof (cases b rs rule: merge_try_cases)
      case (ok x)
      have "\<forall>m. merge_loop (book # books) rs m = Inr (m @ (PDict x # out))"
        by (simp add: PDict ok out(1))
      then show ?thesis using out(2,3) by (intro exI[of _ "PDict x # out"]) (simp add: PDict)
    next
      case (raised e)
      have "\<forall>m. merge_loop (book # books) rs m = Inr (m @ (book # out))"
        by (simp add: PDict raised out(1) all_is_Exception)
      then show ?thesis using out(2,3) by (intro exI[of _ "book # out"]) (simp add: PDict)
    qed
  qed (use out in \<open>auto\<close>)
qed

lemma merge_loop_append:
  "merge_loop (xs @ ys) rs m = (case merge_loop xs rs m of Inl e \<Rightarrow> Inl e | Inr m' \<Rightarrow> merge_loop ys rs m')"
proof (induction xs arbitrary: m)
  case Nil
  then show ?case by simp
next
  case (Cons x xs)
  show ?case
  proof (cases x)
    case (PDict b)
    then show ?thesis
      by (cases b rs rule: merge_try_cases) (simp_all add: Cons all_is_Exception)
  qed (simp_all add: Cons)
qed

lemma merge_overlay_empty: "merge_overlay b i [] = Inr b \<or> merge_overlay b i [] = Inl TypeError"
  by (simp add: merge_overlay_def in_reviews_def Let_def split: pyval.splits)

lemma merge_try_empty: "merge_try b [] m = (None, m @ [PDict b]) \<or> merge_try b [] m = (Some TypeError, m)"
  using merge_overlay_empty[of b "case merge_book_data b of PDict bd \<Rightarrow> dict_get bd ''id'' | _ \<Rightarrow> PNone"]
  by (auto simp add: merge_try_def Let_def)

lemma merge_loop_empty_reviews: "merge_loop books [] m = Inr (m @ filter isinstance_dict books)"
proof (induction books arbitrary: m)
  case Nil
  then show ?case by simp
next
  case (Cons x xs)
  show ?case
  proof (cases x)
    case (PDict b)
    then show ?thesis using merge_try_empty[of b m]
      by (auto simp add: Cons)
  qed (simp_all add: Cons)
qed


text \<open>
  Claim C2. For every list of books and every review lookup the merger returns, and the
  length of its result is the number of input entries that are non-null dictionaries; when
  every entry is one, the result is as long as the input.
\<close>

theorem merge_length:
  "\<exists>out. merge_reviews_with_books books rs = Inr out \<and>
         length out = length (filter (\<lambda>b. b \<noteq> PNone \<and> isinstance_dict b) books) \<and>
         ((\<forall>b \<in> set books. b \<noteq> PNone \<and> isinstance_dict b) \<longrightarrow> length out = length books)"
proof -
  obtain out where out: "merge_loop books rs [] = Inr ([] @ out)"
    "length out = length (filter isinstance_dict books)"
    using merge_loop_shape[of books rs] by blast
  have same: "(\<lambda>b. b \<noteq> PNone \<and> isinstance_dict b) = isinstance_dict"
    by (rule ext) auto
  have "(\<forall>b \<in> set books. isinstance_dict b) \<longrightarrow> filter isinstance_dict books = books"
    by simp
  with out show ?thesis
    by (auto simp add: merge_reviews_with_books_def same)
qed

text \<open>
  Claim C2, witness: two dictionaries, one of them with a nested book and a review.
\<close>

theorem merge_length_witness:
  "\<exists>out. merge_reviews_with_books
            [PDict [(''id'', PStr ''A'')], PDict [(''book'', PDict [(''id'', PStr ''B'')])]]
            [(''B'', PDict [(''rating'', PInt 4)])] = Inr out \<and>
         length out = length [PDict [(''id'', PStr ''A'')], PDict [(''book'', PDict [(''id'', PStr ''B'')])]]"
  using merge_length [of "[PDict [(''id'', PStr ''A'')], PDict [(''book'', PDict [(''id'', PStr ''B'')])]]"
                         "[(''B'', PDict [(''rating'', PInt 4)])]"]
  by simp

text \<open>
  Claim C3, as stated, fails: a string entry and a null entry are not passed through, they
  are left out of the result.
\<close>

theorem merge_drops_malformed_counterexample:
  "merge_reviews_with_books [PStr ''oops'', PDict [(''id'', PStr ''A'')], PNone] [] =
     Inr [PDict [(''id'', PStr ''A'')]]"
  by (simp add: merge_reviews_with_books_def merge_try_def merge_book_data_def merge_overlay_def
        in_reviews_def dict_get_def dict_get_default_def)

lemma merge_loop_from_empty:
  assumes "merge_reviews_with_books books rs = Inr out"
  shows "merge_loop books rs m = Inr (m @ out)"
proof -
  from merge_loop_shape [of books rs] obtain out' where
    all: "\<And>m. merge_loop books rs m = Inr (m @ out')"
    by blast
  from all [of "[]"] assms have "out' = out"
    by (simp add: merge_reviews_with_books_def)
  with all show ?thesis by simp
qed

lemma merge_append:
  assumes "merge_reviews_with_books xs rs = Inr o1" and "merge_reviews_with_books ys rs = Inr o2"
  shows "merge_reviews_with_books (xs @ ys) rs = Inr (o1 @ o2)"
  using assms(1) merge_loop_from_empty [OF assms(2), of o1]
  by (simp add: merge_reviews_with_books_def merge_loop_append)

lemma merge_concat:
  "merge_reviews_with_books books rs =
     Inr (concat (map (\<lambda>v. case merge_reviews_with_books [v] rs of Inr out \<Rightarrow> out | Inl e \<Rightarrow> []) books))"
proof (induction books)
  case Nil
  then show ?case by (simp add: merge_reviews_with_books_def)
next
  case (Cons v vs)
  from merge_loop_shape [of "[v]" rs] obtain o1 where o1: "merge_reviews_with_books [v] rs = Inr o1"
    by (auto simp add: merge_reviews_with_books_def)
  from merge_append [OF o1 Cons.IH] o1 show ?case
    by simp
qed

lemma merge_single:
  "(\<exists>x. merge_try b rs [] = (None, [x]) \<and> merge_reviews_with_books [PDict b] rs = Inr [x]) \<or>
   (\<exists>e. merge_try b rs [] = (Some e, []) \<and> merge_reviews_with_books [PDict b] rs = Inr [PDict b])"
proof (cases b rs rule: merge_try_cases)
  case (ok x)
  then show ?thesis
    by (simp add: merge_reviews_with_books_def)
next
  case (raised e)
  then show ?thesis
    by (simp add: merge_reviews_with_books_def all_is_Exception)
qed

text \<open>
  Claim C3, amended. The merger returns for every list of books (it never raises). Its
  result is the concatenation, in the order of the list, of what it returns for each entry
  alone: nothing for an entry that is null or not a dictionary, and one record for a
  dictionary, which is the record its \<^verbatim>\<open>try\<close> body appended, or the dictionary
  itself, unmodified, when the body raised.
\<close>

theorem merge_total_skips_malformed:
  "(\<exists>out. merge_reviews_with_books books rs = Inr out) \<and>
   merge_reviews_with_books books rs =
     Inr (concat (map (\<lambda>v. case merge_reviews_with_books [v] rs of Inr out \<Rightarrow> out | Inl e \<Rightarrow> [])
                    books)) \<and>
   (\<forall>v. \<not> isinstance_dict v \<longrightarrow> merge_reviews_with_books [v] rs = Inr []) \<and>
   (\<forall>b. (\<exists>x. merge_try b rs [] = (None, [x]) \<and> merge_reviews_with_books [PDict b] rs = Inr [x]) \<or>
        (\<exists>e. merge_try b rs [] = (Some e, []) \<and>
             merge_reviews_with_books [PDict b] rs = Inr [PDict b]))"
proof (intro conjI allI impI)
  show "\<exists>out. merge_reviews_with_books books rs = Inr out"
    using merge_loop_shape [of books rs] by (auto simp add: merge_reviews_with_books_def)
next
  show "merge_reviews_with_books books rs =
     Inr (concat (map (\<lambda>v. case merge_reviews_with_books [v] rs of Inr out \<Rightarrow> out | Inl e \<Rightarrow> [])
                    books))"
    by (rule merge_concat)
next
  fix v
  assume "\<not> isinstance_dict v"
  then show "merge_reviews_with_books [v] rs = Inr []"
    by (cases v) (simp_all add: merge_reviews_with_books_def)
next
  fix b
  show "(\<exists>x. merge_try b rs [] = (None, [x]) \<and> merge_reviews_with_books [PDict b] rs = Inr [x]) \<or>
        (\<exists>e. merge_try b rs [] = (Some e, []) \<and>
             merge_reviews_with_books [PDict b] rs = Inr [PDict b])"
    by (rule merge_single)
qed

text \<open>
  Claim C3, witness: a dictionary whose identifier is a list, which cannot be hashed,
  then a null, then a dictionary with a review in the lookup. The first comes out
  unmodified, the null is left out, the last comes out with its rating.
\<close>

theorem merge_total_skips_malformed_witness:
  "merge_try [(''id'', PList [PInt 7])] [(''A'', PDict [(''rating'', PInt 4)])] [] =
     (Some TypeError, []) \<and>
   merge_reviews_with_books
     [PDict [(''id'', PList [PInt 7])], PNone, PDict [(''id'', PStr ''A'')]]
     [(''A'', PDict [(''rating'', PInt 4)])] =
   Inr [PDict [(''id'', PList [PInt 7])], PDict [(''id'', PStr ''A''), (''rating'', PInt 4)]]"
proof -
  define rs where "rs = [(''A'', PDict [(''rating'', PInt 4)])]"
  have raised: "merge_try [(''id'', PList [PInt 7])] rs [] = (Some TypeError, [])"
    by (simp add: merge_try_def merge_book_data_def merge_overlay_def
        in_reviews_def dict_get_def dict_get_default_def)
  have found: "merge_try [(''id'', PStr ''A'')] rs [] =
      (None, [PDict [(''id'', PStr ''A''), (''rating'', PInt 4)]])"
    by (simp add: rs_def merge_try_def merge_book_data_def merge_overlay_def
        in_reviews_def dict_get_def dict_get_default_def dict_update_def)
  note inst = merge_total_skips_malformed
    [of "[PDict [(''id'', PList [PInt 7])], PNone, PDict [(''id'', PStr ''A'')]]" rs]
  note concat = inst [THEN conjunct2, THEN conjunct1]
  note skip = inst [THEN conjunct2, THEN conjunct2, THEN conjunct1]
  note single = inst [THEN conjunct2, THEN conjunct2, THEN conjunct2]
  from skip have null: "merge_reviews_with_books [PNone] rs = Inr []"
    by simp
  from single have
    "(\<exists>x. merge_try [(''id'', PList [PInt 7])] rs [] = (None, [x]) \<and>
          merge_reviews_with_books [PDict [(''id'', PList [PInt 7])]] rs = Inr [x]) \<or>
     (\<exists>e. merge_try [(''id'', PList [PInt 7])] rs [] = (Some e, []) \<and>
          merge_reviews_with_books [PDict [(''id'', PList [PInt 7])]] rs =
            Inr [PDict [(''id'', PList [PInt 7])]])"
    by (rule spec)
  then have first: "merge_reviews_with_books [PDict [(''id'', PList [PInt 7])]] rs =
      Inr [PDict [(''id'', PList [PInt 7])]]"
    unfolding raised by simp
  from single have
    "(\<exists>x. merge_try [(''id'', PStr ''A'')] rs [] = (None, [x]) \<and>
          merge_reviews_with_books [PDict [(''id'', PStr ''A'')]] rs = Inr [x]) \<or>
     (\<exists>e. merge_try [(''id'', PStr ''A'')] rs [] = (Some e, []) \<and>
          merge_reviews_with_books [PDict [(''id'', PStr ''A'')]] rs =
            Inr [PDict [(''id'', PStr ''A'')]])"
    by (rule spec)
  then have last: "merge_reviews_with_books [PDict [(''id'', PStr ''A'')]] rs =
      Inr [PDict [(''id'', PStr ''A''), (''rating'', PInt 4)]]"
    unfolding found by simp
  have "merge_reviews_with_books
      [PDict [(''id'', PList [PInt 7])], PNone, PDict [(''id'', PStr ''A'')]] rs =
     Inr [PDict [(''id'', PList [PInt 7])], PDict [(''id'', PStr ''A''), (''rating'', PInt 4)]]"
    unfolding concat by (simp add: null first last)
  with raised show ?thesis
    unfolding rs_def by simp
qed

text \<open>
  Claim C8, as stated, fails: with an empty lookup a list holding a null and a number does
  not come back equal to itself.
\<close>

theorem merge_empty_reviews_counterexample:
  "merge_reviews_with_books [PNone, PInt 3] [] \<noteq> Inr [PNone, PInt 3]"
  by (simp add: merge_reviews_with_books_def)

text \<open>
  Claim C8, amended. Merging with an empty lookup returns the dictionaries of the input, in
  order, each unchanged; on a list of dictionaries it is the identity.
\<close>

theorem merge_empty_reviews:
  "merge_reviews_with_books books [] = Inr (filter isinstance_dict books) \<and>
   ((\<forall>b \<in> set books. isinstance_dict b) \<longrightarrow> merge_reviews_with_books books [] = Inr books)"
proof -
  have "(\<forall>b \<in> set books. isinstance_dict b) \<longrightarrow> filter isinstance_dict books = books"
    by simp
  then show ?thesis
    using merge_loop_empty_reviews [of books "[]"] by (auto simp add: merge_reviews_with_books_def)
qed

text \<open>
  Claim C8, witness: a list of two dictionaries, one of them empty.
\<close>

theorem merge_empty_reviews_witness:
  "merge_reviews_with_books [PDict [(''id'', PStr ''A''), (''title'', PStr ''Foo'')], PDict []] [] =
     Inr [PDict [(''id'', PStr ''A''), (''title'', PStr ''Foo'')], PDict []]"
  using merge_empty_reviews [of "[PDict [(''id'', PStr ''A''), (''title'', PStr ''Foo'')], PDict []]"]
  by simp

section \<open>Properties of the normalizer\<close>

lemma normalize_book_keys:
  "normalize_book book = Inr r \<Longrightarrow> map fst r = map fst normalize_defaults"
  by (auto simp add: normalize_book_def normalize_dict_def Let_def nb_record_def normalize_defaults_def
      split: pyval.splits sum.splits if_splits)

text \<open>
  Claim C1. The normalizer does not return for every input: on a record whose
  \<^verbatim>\<open>reading_progress\<close> is a string, line 81 calls \<^verbatim>\<open>get\<close> on the string and
  raises \<^verbatim>\<open>AttributeError\<close>, where line 80 guards the same value with
  \<^verbatim>\<open>isinstance\<close>.
\<close>

theorem normalize_book_reading_progress_raises:
  "normalize_book (PDict [(''title'', PStr ''Foo''), (''reading_progress'', PStr ''50%'')]) =
     Inl AttributeError"
  by (simp add: normalize_book_def normalize_dict_def Let_def nb_book_data_def nb_genres_def
      nb_reading_progress_def dict_get_def dict_get_default_def py_or_def)

text \<open>Claim C1, witness: on that record the normalizer gives an error and no record.\<close>

theorem normalize_book_reading_progress_raises_witness:
  "isl (normalize_book (PDict [(''title'', PStr ''Foo''), (''reading_progress'', PStr ''50%'')]))"
  using normalize_book_reading_progress_raises by simp

lemma normalize_nested:
  assumes "dict_get book ''book'' = PDict nested" and "normalize_book (PDict book) = Inr r"
  shows "\<exists>genres current_page total_pages emoji_reaction.
           nb_genres nested = Inr genres \<and>
           method_get (nb_reading_progress nested) ''current_page'' = Inr current_page \<and>
           method_get (nb_reading_progress nested) ''page_count'' = Inr total_pages \<and>
           r = nb_record book nested genres current_page total_pages emoji_reaction"
proof -
  have bd: "nb_book_data book = nested"
    using assms(1) by (simp add: nb_book_data_def)
  have "book \<noteq> []"
    using assms(1) by (auto simp add: dict_get_def dict_get_default_def)
  then have "normalize_dict book = Inr r"
    using assms(2) by (simp add: normalize_book_def)
  then show ?thesis
    by (auto simp add: normalize_dict_def Let_def bd split: sum.splits)
qed

lemma nb_record_fields:
  "dict_get (nb_record book bd g c t e) ''title'' = py_or (dict_get bd ''title'') (dict_get book ''title'')"
  "dict_get (nb_record book bd g c t e) ''authors'' = nb_authors bd book"
  "dict_get (nb_record book bd g c t e) ''genres'' = g"
  "dict_get (nb_record book bd g c t e) ''published_date'' =
     py_or (py_or (dict_get bd ''published_date'') (dict_get bd ''publish_date''))
       (dict_get book ''published_date'')"
  "dict_get (nb_record book bd g c t e) ''moods'' = nb_tag_group bd ''moods''"
  "dict_get (nb_record book bd g c t e) ''content_warnings'' = nb_tag_group bd ''content_warnings''"
  "dict_get (nb_record book bd g c t e) ''storygraph_genres'' = nb_tag_group bd ''genres''"
  "dict_get (nb_record book bd g c t e) ''rating'' = dict_get book ''rating''"
  "dict_get (nb_record book bd g c t e) ''review'' = py_or (dict_get book ''review'') (PStr [])"
  "dict_get (nb_record book bd g c t e) ''status'' = py_or (nb_read_status bd) (dict_get book ''status'')"
  "dict_get (nb_record book bd g c t e) ''current_page'' = c"
  "dict_get (nb_record book bd g c t e) ''total_pages'' = t"
  "dict_get (nb_record book bd g c t e) ''started_reading_at'' =
     py_or (dict_get bd ''started_reading_at'') (PStr [])"
  "dict_get (nb_record book bd g c t e) ''finished_reading_at'' =
     py_or (dict_get bd ''finished_reading_at'') (PStr [])"
  by (simp_all add: nb_record_def dict_get_def dict_get_default_def)

text \<open>
  Claim C5, as stated, fails: with a nested book, the status, the current page and the
  date the reading started are taken from the nested mapping, and what the outer record
  holds for them is not read (the outer status only when the nested one is empty).
\<close>

theorem normalize_nested_reading_state_counterexample:
  "normalize_book
     (PDict [(''book'', PDict [(''title'', PStr ''T''),
                               (''reading_progress'', PDict [(''status'', PStr ''reading''),
                                                             (''current_page'', PInt 5)])]),
             (''status'', PStr ''finished''),
             (''current_page'', PInt 99),
             (''total_pages'', PInt 300),
             (''started_reading_at'', PStr ''2024-01-01''),
             (''finished_reading_at'', PStr ''2024-02-01'')]) =
   Inr [(''title'', PStr ''T''), (''subtitle'', PStr []), (''authors'', PList []), (''isbn'', PNone),
        (''imprint'', PNone), (''page_count'', PNone), (''published_date'', PNone),
        (''description'', PStr []), (''cover_image'', PStr []), (''genres'', PList []),
        (''storygraph_genres'', PList []), (''moods'', PList []), (''content_warnings'', PList []),
        (''status'', PStr ''reading''), (''rating'', PNone), (''review'', PStr []),
        (''review_summary_liked'', PNone), (''review_summary_disliked'', PNone),
        (''review_summary_disagreed'', PNone), (''contains_spoilers'', PNone),
        (''did_not_finish'', PNone), (''review_created_at'', PNone), (''added_at'', PNone),
        (''started_reading_at'', PStr []), (''finished_reading_at'', PStr []),
        (''current_page'', PInt 5), (''total_pages'', PNone), (''characters_rating'', PNone),
        (''plot_rating'', PNone), (''writing_style_rating'', PNone), (''setting_rating'', PNone),
        (''attributes'', PList []), (''emoji_reaction'', PStr []), (''spicy_level'', PNone)]"
  by (simp add: normalize_book_def normalize_dict_def Let_def nb_book_data_def nb_genres_def
      nb_reading_progress_def nb_record_def nb_authors_def nb_tag_group_def nb_summary_def
      nb_read_status_def nb_attribute_names_def nb_emoji_reaction_def names_of_def
      List.map_filter_simps dict_get_def dict_get_default_def py_or_def)

text \<open>
  Claim C5, amended. For a record with a nested mapping under \<^verbatim>\<open>book\<close> on which the
  normalizer returns: title, authors and published date are read from the nested mapping
  first and from the outer record otherwise, genres and the tag groups from the nested
  mapping; rating and review text are read from the outer record; the status is the one of
  the nested mapping's \<^verbatim>\<open>reading_progress\<close>, or the outer record's when that is empty;
  current page and total pages are read from the nested mapping's
  \<^verbatim>\<open>reading_progress\<close>, and the dates the reading started and finished from the nested
  mapping, none of the four from the outer record.
\<close>

theorem normalize_nested_sources:
  assumes "dict_get book ''book'' = PDict nested" and "normalize_book (PDict book) = Inr r"
  shows "dict_get r ''title'' = py_or (dict_get nested ''title'') (dict_get book ''title'') \<and>
         dict_get r ''authors'' = nb_authors nested book \<and>
         dict_get r ''published_date'' =
           py_or (py_or (dict_get nested ''published_date'') (dict_get nested ''publish_date''))
             (dict_get book ''published_date'') \<and>
         nb_genres nested = Inr (dict_get r ''genres'') \<and>
         dict_get r ''moods'' = nb_tag_group nested ''moods'' \<and>
         dict_get r ''content_warnings'' = nb_tag_group nested ''content_warnings'' \<and>
         dict_get r ''storygraph_genres'' = nb_tag_group nested ''genres'' \<and>
         dict_get r ''rating'' = dict_get book ''rating'' \<and>
         dict_get r ''review'' = py_or (dict_get book ''review'') (PStr []) \<and>
         dict_get r ''status'' = py_or (nb_read_status nested) (dict_get book ''status'') \<and>
         method_get (nb_reading_progress nested) ''current_page'' = Inr (dict_get r ''current_page'') \<and>
         method_get (nb_reading_progress nested) ''page_count'' = Inr (dict_get r ''total_pages'') \<and>
         dict_get r ''started_reading_at'' = py_or (dict_get nested ''started_reading_at'') (PStr []) \<and>
         dict_get r ''finished_reading_at'' = py_or (dict_get nested ''finished_reading_at'') (PStr [])"
proof -
  from normalize_nested [OF assms] obtain g c t e where
    parts: "nb_genres nested = Inr g"
      "method_get (nb_reading_progress nested) ''current_page'' = Inr c"
      "method_get (nb_reading_progress nested) ''page_count'' = Inr t"
    and r: "r = nb_record book nested g c t e"
    by blast
  show ?thesis
    unfolding r by (simp only: nb_record_fields parts simp_thms)
qed

text \<open>
  Claim C5, witness: a record with a nested book that holds the title and the start date,
  and with a rating and a status of its own.
\<close>

theorem normalize_nested_sources_witness:
  "dict_get [(''book'', PDict [(''title'', PStr ''T''), (''started_reading_at'', PStr ''2024-01-01'')]),
             (''rating'', PInt 4), (''status'', PStr ''finished'')] ''book'' =
     PDict [(''title'', PStr ''T''), (''started_reading_at'', PStr ''2024-01-01'')] \<and>
   (\<exists>r. normalize_book
          (PDict [(''book'', PDict [(''title'', PStr ''T''), (''started_reading_at'', PStr ''2024-01-01'')]),
                  (''rating'', PInt 4), (''status'', PStr ''finished'')]) = Inr r \<and>
        dict_get r ''title'' = PStr ''T'' \<and>
        dict_get r ''rating'' = PInt 4 \<and>
        dict_get r ''status'' = PStr ''finished'' \<and>
        dict_get r ''started_reading_at'' = PStr ''2024-01-01'')"
proof -
  define nested where
    "nested = [(''title'', PStr ''T''), (''started_reading_at'', PStr ''2024-01-01'')]"
  define book where
    "book = [(''book'', PDict nested), (''rating'', PInt 4), (''status'', PStr ''finished'')]"
  have nest: "dict_get book ''book'' = PDict nested"
    by (simp add: book_def dict_get_def dict_get_default_def)
  have "\<exists>r. normalize_book (PDict book) = Inr r"
    by (simp add: book_def nested_def normalize_book_def normalize_dict_def Let_def nb_book_data_def
        nb_genres_def nb_reading_progress_def nb_emoji_reaction_def
        dict_get_def dict_get_default_def py_or_def)
  then obtain r where r: "normalize_book (PDict book) = Inr r" ..
  have vals: "py_or (dict_get nested ''title'') (dict_get book ''title'') = PStr ''T''"
    "dict_get book ''rating'' = PInt 4"
    "py_or (nb_read_status nested) (dict_get book ''status'') = PStr ''finished''"
    "py_or (dict_get nested ''started_reading_at'') (PStr []) = PStr ''2024-01-01''"
    by (simp_all add: book_def nested_def nb_read_status_def nb_reading_progress_def
        dict_get_def dict_get_default_def py_or_def)
  from normalize_nested_sources [OF nest r] vals r nest show ?thesis
    unfolding book_def nested_def by auto
qed

section \<open>Properties of the exporters\<close>

text \<open>
  Claim C6. Each of the three exporters, called with an empty list of books, raises
  \<^verbatim>\<open>ValueError("No books to export")\<close> and leaves the file system as it was: no
  directory is made and no file is opened or written, whatever the path and whatever the
  operating system would have answered.
\<close>

theorem export_empty_raises_before_effects:
  "export_to_csv env [] output_path fs = (Inl (ValueError ''No books to export''), fs) \<and>
   export_to_json env [] output_path fs = (Inl (ValueError ''No books to export''), fs) \<and>
   export_to_markdown env [] output_path fs = (Inl (ValueError ''No books to export''), fs)"
  by (simp add: export_to_csv_def export_to_json_def export_to_markdown_def)

text \<open>Claim C6, witness: the three exporters on an empty list, with no file yet.\<close>

theorem export_empty_raises_before_effects_witness:
  "export_to_csv demo_env [] [''out'', ''books''] [] = (Inl (ValueError ''No books to export''), []) \<and>
   export_to_json demo_env [] [''out'', ''books''] [] = (Inl (ValueError ''No books to export''), []) \<and>
   export_to_markdown demo_env [] [''out'', ''books''] [] = (Inl (ValueError ''No books to export''), [])"
  using export_empty_raises_before_effects [of demo_env "[''out'', ''books'']" "[]"] by simp

lemma float_or_none_Inr:
  assumes "float_or_none env v = Inr w"
  shows "(truthy v \<longrightarrow> (\<exists>f. w = PFloat f \<and> py_float env v = Inr f)) \<and>
         (\<not> truthy v \<longrightarrow> w = PNone) \<and> (v = PInt 0 \<longrightarrow> w = PNone)"
  using assms by (auto simp add: float_or_none_def split: if_splits sum.splits)

lemma json_clean_book_Inr:
  assumes "json_clean_book env nb = Inr cb"
  shows "\<exists>isbn10 isbn13 authors rating characters plot writing_style setting.
           float_or_none env (dict_get nb ''rating'') = Inr rating \<and>
           float_or_none env (dict_get nb ''characters_rating'') = Inr characters \<and>
           float_or_none env (dict_get nb ''plot_rating'') = Inr plot \<and>
           float_or_none env (dict_get nb ''writing_style_rating'') = Inr writing_style \<and>
           float_or_none env (dict_get nb ''setting_rating'') = Inr setting \<and>
           cb = json_object env nb isbn10 isbn13 authors rating characters plot writing_style setting"
  using assms by (auto simp add: json_clean_book_def split: sum.splits prod.splits)

lemma json_object_ratings:
  "json_object env nb i10 i13 a r c p w s = PDict out \<Longrightarrow>
     dict_get out ''rating'' = r \<and>
     dict_get out ''detailed_ratings'' =
       PDict [(''characters'', c), (''plot'', p), (''writing_style'', w), (''setting'', s)]"
  by (auto simp add: json_object_def dict_get_def dict_get_default_def)

lemma json_clean_book_ratings:
  assumes "json_clean_book env nb = Inr cb"
  shows "\<exists>out dr. cb = PDict out \<and> dict_get out ''detailed_ratings'' = PDict dr \<and>
           (\<forall>(k, v) \<in> set [(''rating'', dict_get out ''rating''),
                            (''characters_rating'', dict_get dr ''characters''),
                            (''plot_rating'', dict_get dr ''plot''),
                            (''writing_style_rating'', dict_get dr ''writing_style''),
                            (''setting_rating'', dict_get dr ''setting'')].
              (truthy (dict_get nb k) \<longrightarrow> (\<exists>f. v = PFloat f \<and> py_float env (dict_get nb k) = Inr f)) \<and>
              (\<not> truthy (dict_get nb k) \<longrightarrow> v = PNone) \<and>
              (dict_get nb k = PInt 0 \<longrightarrow> v = PNone))"
proof -
  from json_clean_book_Inr [OF assms] obtain i10 i13 a r c p w s where
    fl: "float_or_none env (dict_get nb ''rating'') = Inr r"
        "float_or_none env (dict_get nb ''characters_rating'') = Inr c"
        "float_or_none env (dict_get nb ''plot_rating'') = Inr p"
        "float_or_none env (dict_get nb ''writing_style_rating'') = Inr w"
        "float_or_none env (dict_get nb ''setting_rating'') = Inr s"
    and cb: "cb = json_object env nb i10 i13 a r c p w s"
    by blast
  obtain out where out: "json_object env nb i10 i13 a r c p w s = PDict out"
    by (simp add: json_object_def)
  define dr where "dr = [(''characters'', c), (''plot'', p), (''writing_style'', w), (''setting'', s)]"
  have o: "dict_get out ''rating'' = r" "dict_get out ''detailed_ratings'' = PDict dr"
    using json_object_ratings [OF out] by (simp_all add: dr_def)
  have d: "dict_get dr ''characters'' = c" "dict_get dr ''plot'' = p"
    "dict_get dr ''writing_style'' = w" "dict_get dr ''setting'' = s"
    by (simp_all add: dr_def dict_get_def dict_get_default_def)
  show ?thesis
    using fl [THEN float_or_none_Inr] cb out o d
    by (intro exI [of _ out] exI [of _ dr]) simp
qed

lemma json_loop_books:
  assumes "json_loop env books acc = Inr clean"
  shows "\<exists>cbs. clean = acc @ cbs \<and>
           list_all2 (\<lambda>book cb. \<exists>nb. normalize_book book = Inr nb \<and> json_clean_book env nb = Inr cb)
             (filter (\<lambda>b. b \<noteq> PNone) books) cbs"
  using assms
proof (induction books arbitrary: acc)
  case Nil
  then show ?case by simp
next
  case (Cons book books)
  show ?case
  proof (cases "book = PNone")
    case True
    with Cons show ?thesis by simp
  next
    case False
    with Cons.prems obtain nb cb where
      nb: "normalize_book book = Inr nb" and cb: "json_clean_book env nb = Inr cb"
      and rest: "json_loop env books (acc @ [cb]) = Inr clean"
      by (auto split: sum.splits)
    from Cons.IH [OF rest] obtain cbs where
      "clean = (acc @ [cb]) @ cbs"
      "list_all2 (\<lambda>book cb. \<exists>nb. normalize_book book = Inr nb \<and> json_clean_book env nb = Inr cb)
         (filter (\<lambda>b. b \<noteq> PNone) books) cbs"
      by blast
    with False nb cb show ?thesis
      by (intro exI [of _ "cb # cbs"]) auto
  qed
qed

text \<open>
  Claim C10. When \<^verbatim>\<open>export_to_json\<close> returns, the file has been opened and the list
  \<^verbatim>\<open>clean_books\<close> dumped to it, which holds one object for each entry of \<open>books\<close>
  that is not \<^verbatim>\<open>None\<close>, in order. In the object of an entry, the rating and each
  detailed rating is a float exactly when the value of the normalized entry is truthy, and
  then it is \<^verbatim>\<open>float\<close> of that value; for a falsy value, the number 0 among them, it
  is \<^verbatim>\<open>None\<close> (JSON null).
\<close>

theorem json_export_ratings_float_or_null:
  assumes "export_to_json env books output_path fs = (Inr p, fs')"
  shows "\<exists>fs1 fs2 clean_books.
           mkdir_parents env (path_parent output_path) fs = (None, fs1) \<and>
           json_loop env books [] = Inr clean_books \<and>
           open_write env output_path fs1 = (None, fs2) \<and>
           write_chunk env output_path (JsonDump (PList clean_books)) fs2 = (None, fs') \<and>
           list_all2
             (\<lambda>book cb. \<exists>nb out dr. normalize_book book = Inr nb \<and> json_clean_book env nb = Inr cb \<and>
                cb = PDict out \<and> dict_get out ''detailed_ratings'' = PDict dr \<and>
           (\<forall>(k, v) \<in> set [(''rating'', dict_get out ''rating''),
                            (''characters_rating'', dict_get dr ''characters''),
                            (''plot_rating'', dict_get dr ''plot''),
                            (''writing_style_rating'', dict_get dr ''writing_style''),
                            (''setting_rating'', dict_get dr ''setting'')].
              (truthy (dict_get nb k) \<longrightarrow> (\<exists>f. v = PFloat f \<and> py_float env (dict_get nb k) = Inr f)) \<and>
              (\<not> truthy (dict_get nb k) \<longrightarrow> v = PNone) \<and>
              (dict_get nb k = PInt 0 \<longrightarrow> v = PNone)))
             (filter (\<lambda>b. b \<noteq> PNone) books) clean_books"
proof -
  from assms obtain fs1 fs2 clean_books where
    steps: "mkdir_parents env (path_parent output_path) fs = (None, fs1)"
      "json_loop env books [] = Inr clean_books"
      "open_write env output_path fs1 = (None, fs2)"
      "write_chunk env output_path (JsonDump (PList clean_books)) fs2 = (None, fs')"
    by (auto simp add: export_to_json_def split: if_splits prod.splits option.splits sum.splits)
  from json_loop_books [OF steps(2)] have
    each: "list_all2 (\<lambda>book cb. \<exists>nb. normalize_book book = Inr nb \<and> json_clean_book env nb = Inr cb)
             (filter (\<lambda>b. b \<noteq> PNone) books) clean_books"
    by simp
  have "list_all2
             (\<lambda>book cb. \<exists>nb out dr. normalize_book book = Inr nb \<and> json_clean_book env nb = Inr cb \<and>
                cb = PDict out \<and> dict_get out ''detailed_ratings'' = PDict dr \<and>
           (\<forall>(k, v) \<in> set [(''rating'', dict_get out ''rating''),
                            (''characters_rating'', dict_get dr ''characters''),
                            (''plot_rating'', dict_get dr ''plot''),
                            (''writing_style_rating'', dict_get dr ''writing_style''),
                            (''setting_rating'', dict_get dr ''setting'')].
              (truthy (dict_get nb k) \<longrightarrow> (\<exists>f. v = PFloat f \<and> py_float env (dict_get nb k) = Inr f)) \<and>
              (\<not> truthy (dict_get nb k) \<longrightarrow> v = PNone) \<and>
              (dict_get nb k = PInt 0 \<longrightarrow> v = PNone)))
             (filter (\<lambda>b. b \<noteq> PNone) books) clean_books"
    using each
  proof (rule list_all2_mono)
    fix book cb
    assume "\<exists>nb. normalize_book book = Inr nb \<and> json_clean_book env nb = Inr cb"
    then obtain nb where nb: "normalize_book book = Inr nb" and cb: "json_clean_book env nb = Inr cb"
      by blast
    from json_clean_book_ratings [OF cb] obtain out dr where
      shape: "cb = PDict out" "dict_get out ''detailed_ratings'' = PDict dr"
      and ratings: "(\<forall>(k, v) \<in> set [(''rating'', dict_get out ''rating''),
                            (''characters_rating'', dict_get dr ''characters''),
                            (''plot_rating'', dict_get dr ''plot''),
                            (''writing_style_rating'', dict_get dr ''writing_style''),
                            (''setting_rating'', dict_get dr ''setting'')].
              (truthy (dict_get nb k) \<longrightarrow> (\<exists>f. v = PFloat f \<and> py_float env (dict_get nb k) = Inr f)) \<and>
              (\<not> truthy (dict_get nb k) \<longrightarrow> v = PNone) \<and>
              (dict_get nb k = PInt 0 \<longrightarrow> v = PNone))"
      by blast
    show "\<exists>nb out dr. normalize_book book = Inr nb \<and> json_clean_book env nb = Inr cb \<and>
                cb = PDict out \<and> dict_get out ''detailed_ratings'' = PDict dr \<and>
           (\<forall>(k, v) \<in> set [(''rating'', dict_get out ''rating''),
                            (''characters_rating'', dict_get dr ''characters''),
                            (''plot_rating'', dict_get dr ''plot''),
                            (''writing_style_rating'', dict_get dr ''writing_style''),
                            (''setting_rating'', dict_get dr ''setting'')].
              (truthy (dict_get nb k) \<longrightarrow> (\<exists>f. v = PFloat f \<and> py_float env (dict_get nb k) = Inr f)) \<and>
              (\<not> truthy (dict_get nb k) \<longrightarrow> v = PNone) \<and>
              (dict_get nb k = PInt 0 \<longrightarrow> v = PNone))"
      by (rule exI [of _ nb], rule exI [of _ out], rule exI [of _ dr],
          rule conjI [OF nb conjI [OF cb conjI [OF shape(1) conjI [OF shape(2) ratings]]]])
  qed
  with steps show ?thesis
    by (intro exI [of _ fs1] exI [of _ fs2] exI [of _ clean_books] conjI)
qed

text \<open>
  Claim C10, witness: the export of a null entry and a book rated 0, with a plot rating of
  4.5: one object is dumped, its rating is null and its plot rating the float 4.5.
\<close>

theorem json_export_ratings_float_or_null_witness:
  "\<exists>fs' out dr.
      export_to_json demo_env
        [PNone, PDict [(''title'', PStr ''Foo''), (''rating'', PInt 0),
                       (''plot_rating'', PFloat (FFinite (9 / 2)))]]
        [''out'', ''books.json''] [] = (Inr [''out'', ''books.json''], fs') \<and>
      write_chunk demo_env [''out'', ''books.json''] (JsonDump (PList [PDict out]))
        [([''out'', ''books.json''], [])] = (None, fs') \<and>
      dict_get out ''rating'' = PNone \<and>
      dict_get out ''detailed_ratings'' = PDict dr \<and>
      dict_get dr ''plot'' = PFloat (FFinite (9 / 2))"
proof -
  define raw where
    "raw = [(''title'', PStr ''Foo''), (''rating'', PInt 0), (''plot_rating'', PFloat (FFinite (9 / 2)))]"
  define p where "p = [''out'', ''books.json'']"
  have norm: "normalize_book (PDict raw) = Inr (nb_record raw raw (PList []) PNone PNone (PStr []))"
    by (simp add: raw_def normalize_book_def normalize_dict_def Let_def nb_book_data_def nb_genres_def
        nb_reading_progress_def nb_emoji_reaction_def dict_get_def dict_get_default_def py_or_def)
  define nb0 where "nb0 = nb_record raw raw (PList []) PNone PNone (PStr [])"
  have vals: "dict_get nb0 ''rating'' = PInt 0" "dict_get nb0 ''plot_rating'' = PFloat (FFinite (9 / 2))"
    "dict_get nb0 ''characters_rating'' = PNone" "dict_get nb0 ''writing_style_rating'' = PNone"
    "dict_get nb0 ''setting_rating'' = PNone" "dict_get nb0 ''isbn'' = PNone"
    "dict_get_default nb0 ''authors'' (PList []) = PList []"
    by (simp_all add: nb0_def raw_def nb_record_def nb_authors_def dict_get_def dict_get_default_def
        py_or_def)
  have "\<exists>cb. json_clean_book demo_env nb0 = Inr cb"
    by (simp add: json_clean_book_def vals extract_isbn_def format_authors_list_def float_or_none_def)
  then obtain cb0 where cb0: "json_clean_book demo_env nb0 = Inr cb0" ..
  have loop: "json_loop demo_env [PNone, PDict raw] [] = Inr [cb0]"
    by (simp add: norm nb0_def [symmetric] cb0)
  have fs: "mkdir_parents demo_env q fs = (None, fs)"
    "open_write demo_env p [] = (None, [(p, [])])" for q fs
    by (simp_all add: demo_env_def)
  have "\<exists>fs'. write_chunk demo_env p (JsonDump (PList [cb0])) [(p, [])] = (None, fs')"
    by (simp add: demo_env_def)
  then obtain fs0 where fs0: "write_chunk demo_env p (JsonDump (PList [cb0])) [(p, [])] = (None, fs0)" ..
  have run: "export_to_json demo_env [PNone, PDict raw] p [] = (Inr p, fs0)"
    by (simp add: export_to_json_def fs norm nb0_def [symmetric] cb0 fs0)
  from json_export_ratings_float_or_null [OF run] obtain fs1 fs2 clean_books where
    steps: "mkdir_parents demo_env (path_parent p) [] = (None, fs1)"
      "json_loop demo_env [PNone, PDict raw] [] = Inr clean_books"
      "open_write demo_env p fs1 = (None, fs2)"
      "write_chunk demo_env p (JsonDump (PList clean_books)) fs2 = (None, fs0)"
    and each: "list_all2
             (\<lambda>book cb. \<exists>nb out dr. normalize_book book = Inr nb \<and> json_clean_book demo_env nb = Inr cb \<and>
                cb = PDict out \<and> dict_get out ''detailed_ratings'' = PDict dr \<and>
           (\<forall>(k, v) \<in> set [(''rating'', dict_get out ''rating''),
                            (''characters_rating'', dict_get dr ''characters''),
                            (''plot_rating'', dict_get dr ''plot''),
                            (''writing_style_rating'', dict_get dr ''writing_style''),
                            (''setting_rating'', dict_get dr ''setting'')].
              (truthy (dict_get nb k) \<longrightarrow> (\<exists>f. v = PFloat f \<and> py_float demo_env (dict_get nb k) = Inr f)) \<and>
              (\<not> truthy (dict_get nb k) \<longrightarrow> v = PNone) \<and>
              (dict_get nb k = PInt 0 \<longrightarrow> v = PNone)))
             (filter (\<lambda>b. b \<noteq> PNone) [PNone, PDict raw]) clean_books"
    by (elim exE conjE)
  from steps(2) loop have clean: "clean_books = [cb0]"
    by simp
  from steps(1,3) have fs2: "fs2 = [(p, [])]"
    by (simp add: fs)
  have single: "thesis"
    if "list_all2 P (filter (\<lambda>b. b \<noteq> PNone) [PNone, x]) [y]" "x \<noteq> PNone" "P x y \<Longrightarrow> thesis"
    for P x thesis and y :: pyval
    using that by simp
  have ne: "PDict raw \<noteq> PNone"
    by simp
  from each obtain nb out dr where
    nb: "normalize_book (PDict raw) = Inr nb" and out: "cb0 = PDict out"
    and dr: "dict_get out ''detailed_ratings'' = PDict dr"
    and ratings: "(\<forall>(k, v) \<in> set [(''rating'', dict_get out ''rating''),
                            (''characters_rating'', dict_get dr ''characters''),
                            (''plot_rating'', dict_get dr ''plot''),
                            (''writing_style_rating'', dict_get dr ''writing_style''),
                            (''setting_rating'', dict_get dr ''setting'')].
              (truthy (dict_get nb k) \<longrightarrow> (\<exists>f. v = PFloat f \<and> py_float demo_env (dict_get nb k) = Inr f)) \<and>
              (\<not> truthy (dict_get nb k) \<longrightarrow> v = PNone) \<and>
              (dict_get nb k = PInt 0 \<longrightarrow> v = PNone))"
    unfolding clean by (elim single [OF _ ne] exE conjE)
  from nb norm have nb_eq: "nb = nb0"
    by (simp add: nb0_def)
  from ratings have "dict_get nb ''rating'' = PInt 0 \<longrightarrow> dict_get out ''rating'' = PNone"
    and "truthy (dict_get nb ''plot_rating'') \<longrightarrow>
            (\<exists>f. dict_get dr ''plot'' = PFloat f \<and> py_float demo_env (dict_get nb ''plot_rating'') = Inr f)"
    by simp_all
  then have rating: "dict_get out ''rating'' = PNone"
    and plot: "dict_get dr ''plot'' = PFloat (FFinite (9 / 2))"
    unfolding nb_eq vals by auto
  from steps(4) have "write_chunk demo_env p (JsonDump (PList [PDict out])) [(p, [])] = (None, fs0)"
    unfolding clean fs2 out .
  then show ?thesis
    unfolding raw_def [symmetric] p_def [symmetric]
    by (intro exI [of _ fs0] exI [of _ out] exI [of _ dr] conjI run rating dr plot)
qed

lemma str_items_strings: "str_items (map PStr ss) = Some ss"
  by (induction ss) simp_all

lemma py_join_strings: "py_join sep (PList (map PStr ss)) = Inr (join_strs sep ss)"
  by (simp add: py_join_def str_items_strings)

lemma author_names_strings:
  "filter truthy (map author_name (map PStr ss)) = map PStr (filter (\<lambda>s. s \<noteq> []) ss)"
  by (induction ss) simp_all

lemma format_authors_list_strings:
  "format_authors_list (PList (map PStr ss)) = Inr (join_strs '', '' (filter (\<lambda>s. s \<noteq> []) ss))"
proof (cases ss)
  case Nil
  then show ?thesis by (simp add: format_authors_list_def)
next
  case (Cons s rest)
  have "format_authors_list (PList (map PStr ss)) =
          py_join '', '' (PList (filter truthy (map author_name (map PStr ss))))"
    using Cons by (simp add: format_authors_list_def)
  then show ?thesis
    by (simp only: author_names_strings py_join_strings)
qed

lemma dict_get_default_present:
  "dict_get d k = PList xs \<Longrightarrow> dict_get_default d k dflt = PList xs"
  by (simp add: dict_get_def dict_get_default_def split: option.splits)

lemma dict_get_default_empty_cell:
  "dict_get d k \<in> {PNone, PStr []} \<Longrightarrow> dict_get_default d k (PStr []) \<in> {PNone, PStr []}"
  by (simp add: dict_get_def dict_get_default_def split: option.splits)

lemma csv_row_Inr:
  assumes "csv_row env nb = Inr row"
  shows "\<exists>isbn10 isbn13 authors genres moods content_warnings attributes.
           extract_isbn (dict_get nb ''isbn'') = Inr (isbn10, isbn13) \<and>
           format_authors_list (dict_get_default nb ''authors'' (PList [])) = Inr authors \<and>
           py_join ''; '' (dict_get_default nb ''genres'' (PList [])) = Inr genres \<and>
           py_join ''; '' (dict_get_default nb ''moods'' (PList [])) = Inr moods \<and>
           py_join ''; '' (dict_get_default nb ''content_warnings'' (PList [])) = Inr content_warnings \<and>
           py_join ''; '' (dict_get_default nb ''attributes'' (PList [])) = Inr attributes \<and>
           row = csv_row_dict env nb isbn10 isbn13 authors genres moods content_warnings attributes"
  using assms by (auto simp add: csv_row_def split: sum.splits prod.splits)

lemma csv_row_dict_cells:
  "dict_get (csv_row_dict env nb i10 i13 a g m c t) ''Title'' = dict_get_default nb ''title'' (PStr [])"
  "dict_get (csv_row_dict env nb i10 i13 a g m c t) ''Subtitle'' = dict_get_default nb ''subtitle'' (PStr [])"
  "dict_get (csv_row_dict env nb i10 i13 a g m c t) ''Author(s)'' = PStr a"
  "dict_get (csv_row_dict env nb i10 i13 a g m c t) ''ISBN-10'' = PStr i10"
  "dict_get (csv_row_dict env nb i10 i13 a g m c t) ''ISBN-13'' = PStr i13"
  "dict_get (csv_row_dict env nb i10 i13 a g m c t) ''Publisher'' = dict_get_default nb ''imprint'' (PStr [])"
  "dict_get (csv_row_dict env nb i10 i13 a g m c t) ''Pages'' = dict_get_default nb ''page_count'' (PStr [])"
  "dict_get (csv_row_dict env nb i10 i13 a g m c t) ''Published Date'' =
     PStr (format_date env (dict_get nb ''published_date''))"
  "dict_get (csv_row_dict env nb i10 i13 a g m c t) ''Genres'' = PStr g"
  "dict_get (csv_row_dict env nb i10 i13 a g m c t) ''Moods'' = PStr m"
  "dict_get (csv_row_dict env nb i10 i13 a g m c t) ''Content Warnings'' = PStr c"
  "dict_get (csv_row_dict env nb i10 i13 a g m c t) ''Status'' = dict_get_default nb ''status'' (PStr [])"
  "dict_get (csv_row_dict env nb i10 i13 a g m c t) ''Rating'' = dict_get_default nb ''rating'' (PStr [])"
  "dict_get (csv_row_dict env nb i10 i13 a g m c t) ''Characters Rating'' =
     dict_get_default nb ''characters_rating'' (PStr [])"
  "dict_get (csv_row_dict env nb i10 i13 a g m c t) ''Plot Rating'' =
     dict_get_default nb ''plot_rating'' (PStr [])"
  "dict_get (csv_row_dict env nb i10 i13 a g m c t) ''Writing Style Rating'' =
     dict_get_default nb ''writing_style_rating'' (PStr [])"
  "dict_get (csv_row_dict env nb i10 i13 a g m c t) ''Setting Rating'' =
     dict_get_default nb ''setting_rating'' (PStr [])"
  "dict_get (csv_row_dict env nb i10 i13 a g m c t) ''Review'' = dict_get_default nb ''review'' (PStr [])"
  "dict_get (csv_row_dict env nb i10 i13 a g m c t) ''Review Summary - Liked'' =
     dict_get_default nb ''review_summary_liked'' (PStr [])"
  "dict_get (csv_row_dict env nb i10 i13 a g m c t) ''Review Summary - Disliked'' =
     dict_get_default nb ''review_summary_disliked'' (PStr [])"
  "dict_get (csv_row_dict env nb i10 i13 a g m c t) ''Review Summary - Disagreed'' =
     dict_get_default nb ''review_summary_disagreed'' (PStr [])"
  "dict_get (csv_row_dict env nb i10 i13 a g m c t) ''Attributes/Tags'' = PStr t"
  "dict_get (csv_row_dict env nb i10 i13 a g m c t) ''Emoji Reaction'' =
     dict_get_default nb ''emoji_reaction'' (PStr [])"
  "dict_get (csv_row_dict env nb i10 i13 a g m c t) ''Contains Spoilers'' =
     yes_no (dict_get nb ''contains_spoilers'')"
  "dict_get (csv_row_dict env nb i10 i13 a g m c t) ''Did Not Finish'' =
     yes_no (dict_get nb ''did_not_finish'')"
  "dict_get (csv_row_dict env nb i10 i13 a g m c t) ''Started Reading'' =
     PStr (format_date env (dict_get nb ''started_reading_at''))"
  "dict_get (csv_row_dict env nb i10 i13 a g m c t) ''Finished Reading'' =
     PStr (format_date env (dict_get nb ''finished_reading_at''))"
  "dict_get (csv_row_dict env nb i10 i13 a g m c t) ''Date Added'' =
     PStr (format_date env
             (py_or (py_or (dict_get nb ''review_created_at'') (dict_get nb ''added_at''))
                (dict_get nb ''created_at'')))"
  unfolding csv_row_dict_def
  by (simp_all add: dict_get_def [of "_ # _"] dict_get_default_def [of "_ # _"])

text \<open>
  Claim C7, as stated, fails: for a book that has neither \<^verbatim>\<open>contains_spoilers\<close> nor
  \<^verbatim>\<open>did_not_finish\<close> the two cells are \<^verbatim>\<open>No\<close>, not empty, and the authors, a list,
  are joined with a comma.
\<close>

theorem csv_missing_boolean_counterexample:
  "csv_book_row demo_env (PDict [(''title'', PStr ''T''), (''authors'', PList [PStr ''A'', PStr ''B''])]) =
   Inr [(''Title'', PStr ''T''), (''Subtitle'', PStr []), (''Author(s)'', PStr ''A, B''),
        (''ISBN-10'', PStr []), (''ISBN-13'', PStr []), (''Publisher'', PNone), (''Pages'', PNone),
        (''Published Date'', PStr []), (''Genres'', PStr []), (''Moods'', PStr []),
        (''Content Warnings'', PStr []), (''Status'', PNone), (''Rating'', PNone),
        (''Characters Rating'', PNone), (''Plot Rating'', PNone), (''Writing Style Rating'', PNone),
        (''Setting Rating'', PNone), (''Review'', PStr []), (''Review Summary - Liked'', PNone),
        (''Review Summary - Disliked'', PNone), (''Review Summary - Disagreed'', PNone),
        (''Attributes/Tags'', PStr []), (''Emoji Reaction'', PStr []),
        (''Contains Spoilers'', PStr ''No''), (''Did Not Finish'', PStr ''No''),
        (''Started Reading'', PStr []), (''Finished Reading'', PStr []), (''Date Added'', PStr [])]"
  by (simp add: csv_book_row_def csv_row_def csv_row_dict_def
      normalize_book_def normalize_dict_def Let_def nb_book_data_def nb_genres_def
      nb_reading_progress_def nb_record_def nb_authors_def nb_tag_group_def nb_summary_def
      nb_read_status_def nb_attribute_names_def nb_emoji_reaction_def names_of_def
      List.map_filter_simps dict_get_def dict_get_default_def py_or_def
      extract_isbn_def format_authors_list_def py_join_def format_date_def yes_no_def)

lemma str_items_Some: "str_items xs = Some ss \<Longrightarrow> xs = map PStr ss"
proof (induction xs arbitrary: ss)
  case Nil
  then show ?case by simp
next
  case (Cons x xs)
  then show ?case
    by (cases x) (auto split: option.splits)
qed

lemma py_join_list:
  "py_join sep (PList xs) = Inr j \<Longrightarrow> \<exists>ss. xs = map PStr ss \<and> j = join_strs sep ss"
  by (auto simp add: py_join_def split: option.splits dest: str_items_Some)

lemma format_authors_list_list:
  assumes "format_authors_list (PList xs) = Inr a"
  shows "\<exists>ss. filter truthy (map author_name xs) = map PStr ss \<and> a = join_strs '', '' ss"
proof (cases xs)
  case Nil
  with assms show ?thesis by (simp add: format_authors_list_def)
next
  case (Cons x rest)
  with assms have "py_join '', '' (PList (filter truthy (map author_name xs))) = Inr a"
    by (simp add: format_authors_list_def)
  then show ?thesis by (rule py_join_list)
qed

lemma csv_row_cells:
  assumes "csv_row env nb = Inr row"
  shows "(\<forall>(col, fld) \<in> set [(''Contains Spoilers'', ''contains_spoilers''),
                              (''Did Not Finish'', ''did_not_finish'')].
            dict_get row col = PStr (if truthy (dict_get nb fld) then ''Yes'' else ''No'')) \<and>
         (\<forall>(col, fld) \<in> set [(''Genres'', ''genres''), (''Moods'', ''moods''),
                              (''Content Warnings'', ''content_warnings''),
                              (''Attributes/Tags'', ''attributes'')].
            \<forall>xs. dict_get nb fld = PList xs \<longrightarrow>
                 (\<exists>ss. xs = map PStr ss \<and> dict_get row col = PStr (join_strs ''; '' ss))) \<and>
         (\<forall>xs. dict_get nb ''authors'' = PList xs \<longrightarrow>
                 (\<exists>ss. filter truthy (map author_name xs) = map PStr ss \<and>
                       dict_get row ''Author(s)'' = PStr (join_strs '', '' ss))) \<and>
         (\<forall>(col, fld) \<in> set [(''Title'', ''title''), (''Subtitle'', ''subtitle''),
                              (''Publisher'', ''imprint''), (''Pages'', ''page_count''),
                              (''Status'', ''status''), (''Rating'', ''rating''),
                              (''Characters Rating'', ''characters_rating''),
                              (''Plot Rating'', ''plot_rating''),
                              (''Writing Style Rating'', ''writing_style_rating''),
                              (''Setting Rating'', ''setting_rating''),
                              (''Review'', ''review''),
                              (''Review Summary - Liked'', ''review_summary_liked''),
                              (''Review Summary - Disliked'', ''review_summary_disliked''),
                              (''Review Summary - Disagreed'', ''review_summary_disagreed''),
                              (''Emoji Reaction'', ''emoji_reaction'')].
            dict_get nb fld \<in> {PNone, PStr []} \<longrightarrow> dict_get row col \<in> {PNone, PStr []}) \<and>
         (\<forall>(col, fld) \<in> set [(''Published Date'', ''published_date''),
                              (''Started Reading'', ''started_reading_at''),
                              (''Finished Reading'', ''finished_reading_at'')].
            \<not> truthy (dict_get nb fld) \<longrightarrow> dict_get row col = PStr []) \<and>
         (\<not> truthy (dict_get nb ''review_created_at'') \<and> \<not> truthy (dict_get nb ''added_at'') \<and>
          \<not> truthy (dict_get nb ''created_at'') \<longrightarrow> dict_get row ''Date Added'' = PStr []) \<and>
         (\<not> truthy (dict_get nb ''isbn'') \<longrightarrow>
            dict_get row ''ISBN-10'' = PStr [] \<and> dict_get row ''ISBN-13'' = PStr [])"
proof -
  from csv_row_Inr [OF assms] obtain i10 i13 a g m c t where
    isbn: "extract_isbn (dict_get nb ''isbn'') = Inr (i10, i13)"
    and authors: "format_authors_list (dict_get_default nb ''authors'' (PList [])) = Inr a"
    and joins: "py_join ''; '' (dict_get_default nb ''genres'' (PList [])) = Inr g"
      "py_join ''; '' (dict_get_default nb ''moods'' (PList [])) = Inr m"
      "py_join ''; '' (dict_get_default nb ''content_warnings'' (PList [])) = Inr c"
      "py_join ''; '' (dict_get_default nb ''attributes'' (PList [])) = Inr t"
    and row: "row = csv_row_dict env nb i10 i13 a g m c t"
    by blast
  have booleans: "\<forall>(col, fld) \<in> set [(''Contains Spoilers'', ''contains_spoilers''),
                              (''Did Not Finish'', ''did_not_finish'')].
            dict_get row col = PStr (if truthy (dict_get nb fld) then ''Yes'' else ''No'')"
    unfolding row by (simp add: csv_row_dict_cells yes_no_def)
  have list_cell: "py_join ''; '' (dict_get_default nb fld (PList [])) = Inr j \<Longrightarrow>
      dict_get nb fld = PList xs \<Longrightarrow> \<exists>ss. xs = map PStr ss \<and> PStr j = PStr (join_strs ''; '' ss)"
    for fld j xs
    by (auto dest!: dict_get_default_present [where dflt = "PList []"] py_join_list)
  from list_cell [OF joins(1)]
  have l1: "\<forall>xs. dict_get nb ''genres'' = PList xs \<longrightarrow>
      (\<exists>ss. xs = map PStr ss \<and> PStr g = PStr (join_strs ''; '' ss))"
    by blast
  from list_cell [OF joins(2)]
  have l2: "\<forall>xs. dict_get nb ''moods'' = PList xs \<longrightarrow>
      (\<exists>ss. xs = map PStr ss \<and> PStr m = PStr (join_strs ''; '' ss))"
    by blast
  from list_cell [OF joins(3)]
  have l3: "\<forall>xs. dict_get nb ''content_warnings'' = PList xs \<longrightarrow>
      (\<exists>ss. xs = map PStr ss \<and> PStr c = PStr (join_strs ''; '' ss))"
    by blast
  from list_cell [OF joins(4)]
  have l4: "\<forall>xs. dict_get nb ''attributes'' = PList xs \<longrightarrow>
      (\<exists>ss. xs = map PStr ss \<and> PStr t = PStr (join_strs ''; '' ss))"
    by blast
  have lists: "\<forall>(col, fld) \<in> set [(''Genres'', ''genres''), (''Moods'', ''moods''),
                              (''Content Warnings'', ''content_warnings''),
                              (''Attributes/Tags'', ''attributes'')].
            \<forall>xs. dict_get nb fld = PList xs \<longrightarrow>
                 (\<exists>ss. xs = map PStr ss \<and> dict_get row col = PStr (join_strs ''; '' ss))"
    unfolding row
    by (simp only: list.set ball_simps split_conv csv_row_dict_cells simp_thms)
       (intro conjI l1 l2 l3 l4)
  have auth: "\<forall>xs. dict_get nb ''authors'' = PList xs \<longrightarrow>
                 (\<exists>ss. filter truthy (map author_name xs) = map PStr ss \<and>
                       dict_get row ''Author(s)'' = PStr (join_strs '', '' ss))"
    unfolding row using authors
    by (auto simp add: csv_row_dict_cells
        dest!: dict_get_default_present [where dflt = "PList []"] format_authors_list_list)
  have plain: "\<forall>(col, fld) \<in> set [(''Title'', ''title''), (''Subtitle'', ''subtitle''),
                              (''Publisher'', ''imprint''), (''Pages'', ''page_count''),
                              (''Status'', ''status''), (''Rating'', ''rating''),
                              (''Characters Rating'', ''characters_rating''),
                              (''Plot Rating'', ''plot_rating''),
                              (''Writing Style Rating'', ''writing_style_rating''),
                              (''Setting Rating'', ''setting_rating''),
                              (''Review'', ''review''),
                              (''Review Summary - Liked'', ''review_summary_liked''),
                              (''Review Summary - Disliked'', ''review_summary_disliked''),
                              (''Review Summary - Disagreed'', ''review_summary_disagreed''),
                              (''Emoji Reaction'', ''emoji_reaction'')].
            dict_get nb fld \<in> {PNone, PStr []} \<longrightarrow> dict_get row col \<in> {PNone, PStr []}"
    unfolding row
    by (simp only: list.set ball_simps split_conv csv_row_dict_cells simp_thms)
       (intro conjI impI; erule dict_get_default_empty_cell)
  have dates: "\<forall>(col, fld) \<in> set [(''Published Date'', ''published_date''),
                              (''Started Reading'', ''started_reading_at''),
                              (''Finished Reading'', ''finished_reading_at'')].
            \<not> truthy (dict_get nb fld) \<longrightarrow> dict_get row col = PStr []"
    unfolding row by (simp add: csv_row_dict_cells format_date_def)
  have added: "\<not> truthy (dict_get nb ''review_created_at'') \<and> \<not> truthy (dict_get nb ''added_at'') \<and>
          \<not> truthy (dict_get nb ''created_at'') \<longrightarrow> dict_get row ''Date Added'' = PStr []"
    unfolding row by (simp add: csv_row_dict_cells format_date_def py_or_def)
  have isbns: "\<not> truthy (dict_get nb ''isbn'') \<longrightarrow>
            dict_get row ''ISBN-10'' = PStr [] \<and> dict_get row ''ISBN-13'' = PStr []"
    unfolding row using isbn by (auto simp add: csv_row_dict_cells extract_isbn_def)
  from booleans lists auth plain dates added isbns show ?thesis
    by (intro conjI)
qed

lemma csv_loop_rows:
  assumes "csv_loop env p books fs = (None, fs')"
  shows "\<exists>rows. list_all2 (\<lambda>book row. csv_book_row env book = Inr row)
                  (filter (\<lambda>b. b \<noteq> PNone) books) rows \<and>
               write_chunks env p (map CsvRow rows) fs = (None, fs')"
  using assms
proof (induction books arbitrary: fs)
  case Nil
  then show ?case by simp
next
  case (Cons book books)
  show ?case
  proof (cases "book = PNone")
    case True
    with Cons show ?thesis by simp
  next
    case False
    with Cons.prems obtain row fs1 where
      row: "csv_book_row env book = Inr row"
      and written: "write_chunk env p (CsvRow row) fs = (None, fs1)"
      and rest: "csv_loop env p books fs1 = (None, fs')"
      by (auto split: sum.splits prod.splits option.splits)
    from Cons.IH [OF rest] obtain rows where
      "list_all2 (\<lambda>book row. csv_book_row env book = Inr row) (filter (\<lambda>b. b \<noteq> PNone) books) rows"
      "write_chunks env p (map CsvRow rows) fs1 = (None, fs')"
      by blast
    with False row written show ?thesis
      by (intro exI [of _ "row # rows"]) simp
  qed
qed

text \<open>
  Claim C7, amended. When \<^verbatim>\<open>export_to_csv\<close> returns, the file has been opened, the
  header written, and then one row for each entry of \<open>books\<close> that is not
  \<^verbatim>\<open>None\<close>, in order. Each row is the row of the normalized entry, and in it: the two
  boolean cells are \<^verbatim>\<open>Yes\<close> for a truthy value and \<^verbatim>\<open>No\<close> for any other, an absent
  one included; genres, moods, content warnings and attributes, when lists, are lists of
  strings joined with \<^verbatim>\<open>"; "\<close>; the authors are the non-empty names of the list (the
  \<^verbatim>\<open>name\<close> of an author given as an object, the author itself when given as a string)
  joined with \<^verbatim>\<open>", "\<close>; every other field that is absent (\<^verbatim>\<open>None\<close>, the empty
  string or the empty list) gives an empty cell, that is \<^verbatim>\<open>None\<close> or the empty
  string, both of which the \<^verbatim>\<open>csv\<close> writer prints as nothing.
\<close>

theorem csv_export_cells:
  assumes "export_to_csv env books output_path fs = (Inr p, fs')"
  shows "\<exists>fs1 fs2 fs3 rows.
           mkdir_parents env (path_parent output_path) fs = (None, fs1) \<and>
           open_write env output_path fs1 = (None, fs2) \<and>
           write_chunk env output_path (CsvHeader csv_fieldnames) fs2 = (None, fs3) \<and>
           write_chunks env output_path (map CsvRow rows) fs3 = (None, fs') \<and>
           list_all2
             (\<lambda>book row. \<exists>nb. normalize_book book = Inr nb \<and> csv_row env nb = Inr row \<and>
         (\<forall>(col, fld) \<in> set [(''Contains Spoilers'', ''contains_spoilers''),
                              (''Did Not Finish'', ''did_not_finish'')].
            dict_get row col = PStr (if truthy (dict_get nb fld) then ''Yes'' else ''No'')) \<and>
         (\<forall>(col, fld) \<in> set [(''Genres'', ''genres''), (''Moods'', ''moods''),
                              (''Content Warnings'', ''content_warnings''),
                              (''Attributes/Tags'', ''attributes'')].
            \<forall>xs. dict_get nb fld = PList xs \<longrightarrow>
                 (\<exists>ss. xs = map PStr ss \<and> dict_get row col = PStr (join_strs ''; '' ss))) \<and>
         (\<forall>xs. dict_get nb ''authors'' = PList xs \<longrightarrow>
                 (\<exists>ss. filter truthy (map author_name xs) = map PStr ss \<and>
                       dict_get row ''Author(s)'' = PStr (join_strs '', '' ss))) \<and>
         (\<forall>(col, fld) \<in> set [(''Title'', ''title''), (''Subtitle'', ''subtitle''),
                              (''Publisher'', ''imprint''), (''Pages'', ''page_count''),
                              (''Status'', ''status''), (''Rating'', ''rating''),
                              (''Characters Rating'', ''characters_rating''),
                              (''Plot Rating'', ''plot_rating''),
                              (''Writing Style Rating'', ''writing_style_rating''),
                              (''Setting Rating'', ''setting_rating''),
                              (''Review'', ''review''),
                              (''Review Summary - Liked'', ''review_summary_liked''),
                              (''Review Summary - Disliked'', ''review_summary_disliked''),
                              (''Review Summary - Disagreed'', ''review_summary_disagreed''),
                              (''Emoji Reaction'', ''emoji_reaction'')].
            dict_get nb fld \<in> {PNone, PStr []} \<longrightarrow> dict_get row col \<in> {PNone, PStr []}) \<and>
         (\<forall>(col, fld) \<in> set [(''Published Date'', ''published_date''),
                              (''Started Reading'', ''started_reading_at''),
                              (''Finished Reading'', ''finished_reading_at'')].
            \<not> truthy (dict_get nb fld) \<longrightarrow> dict_get row col = PStr []) \<and>
         (\<not> truthy (dict_get nb ''review_created_at'') \<and> \<not> truthy (dict_get nb ''added_at'') \<and>
          \<not> truthy (dict_get nb ''created_at'') \<longrightarrow> dict_get row ''Date Added'' = PStr []) \<and>
         (\<not> truthy (dict_get nb ''isbn'') \<longrightarrow>
            dict_get row ''ISBN-10'' = PStr [] \<and> dict_get row ''ISBN-13'' = PStr []))
             (filter (\<lambda>b. b \<noteq> PNone) books) rows"
proof -
  from assms obtain fs1 fs2 fs3 where
    steps: "mkdir_parents env (path_parent output_path) fs = (None, fs1)"
      "open_write env output_path fs1 = (None, fs2)"
      "write_chunk env output_path (CsvHeader csv_fieldnames) fs2 = (None, fs3)"
    and loop: "csv_loop env output_path books fs3 = (None, fs')"
    by (auto simp add: export_to_csv_def split: if_splits prod.splits option.splits)
  from csv_loop_rows [OF loop] obtain rows where
    rows: "list_all2 (\<lambda>book row. csv_book_row env book = Inr row)
             (filter (\<lambda>b. b \<noteq> PNone) books) rows"
    and written: "write_chunks env output_path (map CsvRow rows) fs3 = (None, fs')"
    by blast
  have "list_all2
             (\<lambda>book row. \<exists>nb. normalize_book book = Inr nb \<and> csv_row env nb = Inr row \<and>
         (\<forall>(col, fld) \<in> set [(''Contains Spoilers'', ''contains_spoilers''),
                              (''Did Not Finish'', ''did_not_finish'')].
            dict_get row col = PStr (if truthy (dict_get nb fld) then ''Yes'' else ''No'')) \<and>
         (\<forall>(col, fld) \<in> set [(''Genres'', ''genres''), (''Moods'', ''moods''),
                              (''Content Warnings'', ''content_warnings''),
                              (''Attributes/Tags'', ''attributes'')].
            \<forall>xs. dict_get nb fld = PList xs \<longrightarrow>
                 (\<exists>ss. xs = map PStr ss \<and> dict_get row col = PStr (join_strs ''; '' ss))) \<and>
         (\<forall>xs. dict_get nb ''authors'' = PList xs \<longrightarrow>
                 (\<exists>ss. filter truthy (map author_name xs) = map PStr ss \<and>
                       dict_get row ''Author(s)'' = PStr (join_strs '', '' ss))) \<and>
         (\<forall>(col, fld) \<in> set [(''Title'', ''title''), (''Subtitle'', ''subtitle''),
                              (''Publisher'', ''imprint''), (''Pages'', ''page_count''),
                              (''Status'', ''status''), (''Rating'', ''rating''),
                              (''Characters Rating'', ''characters_rating''),
                              (''Plot Rating'', ''plot_rating''),
                              (''Writing Style Rating'', ''writing_style_rating''),
                              (''Setting Rating'', ''setting_rating''),
                              (''Review'', ''review''),
                              (''Review Summary - Liked'', ''review_summary_liked''),
                              (''Review Summary - Disliked'', ''review_summary_disliked''),
                              (''Review Summary - Disagreed'', ''review_summary_disagreed''),
                              (''Emoji Reaction'', ''emoji_reaction'')].
            dict_get nb fld \<in> {PNone, PStr []} \<longrightarrow> dict_get row col \<in> {PNone, PStr []}) \<and>
         (\<forall>(col, fld) \<in> set [(''Published Date'', ''published_date''),
                              (''Started Reading'', ''started_reading_at''),
                              (''Finished Reading'', ''finished_reading_at'')].
            \<not> truthy (dict_get nb fld) \<longrightarrow> dict_get row col = PStr []) \<and>
         (\<not> truthy (dict_get nb ''review_created_at'') \<and> \<not> truthy (dict_get nb ''added_at'') \<and>
          \<not> truthy (dict_get nb ''created_at'') \<longrightarrow> dict_get row ''Date Added'' = PStr []) \<and>
         (\<not> truthy (dict_get nb ''isbn'') \<longrightarrow>
            dict_get row ''ISBN-10'' = PStr [] \<and> dict_get row ''ISBN-13'' = PStr []))
             (filter (\<lambda>b. b \<noteq> PNone) books) rows"
    using rows
  proof (rule list_all2_mono)
    fix book row
    assume "csv_book_row env book = Inr row"
    then obtain nb where nb: "normalize_book book = Inr nb" and row: "csv_row env nb = Inr row"
      by (auto simp add: csv_book_row_def split: sum.splits)
    have cells: "(\<forall>(col, fld) \<in> set [(''Contains Spoilers'', ''contains_spoilers''),
                              (''Did Not Finish'', ''did_not_finish'')].
            dict_get row col = PStr (if truthy (dict_get nb fld) then ''Yes'' else ''No'')) \<and>
         (\<forall>(col, fld) \<in> set [(''Genres'', ''genres''), (''Moods'', ''moods''),
                              (''Content Warnings'', ''content_warnings''),
                              (''Attributes/Tags'', ''attributes'')].
            \<forall>xs. dict_get nb fld = PList xs \<longrightarrow>
                 (\<exists>ss. xs = map PStr ss \<and> dict_get row col = PStr (join_strs ''; '' ss))) \<and>
         (\<forall>xs. dict_get nb ''authors'' = PList xs \<longrightarrow>
                 (\<exists>ss. filter truthy (map author_name xs) = map PStr ss \<and>
                       dict_get row ''Author(s)'' = PStr (join_strs '', '' ss))) \<and>
         (\<forall>(col, fld) \<in> set [(''Title'', ''title''), (''Subtitle'', ''subtitle''),
                              (''Publisher'', ''imprint''), (''Pages'', ''page_count''),
                              (''Status'', ''status''), (''Rating'', ''rating''),
                              (''Characters Rating'', ''characters_rating''),
                              (''Plot Rating'', ''plot_rating''),
                              (''Writing Style Rating'', ''writing_style_rating''),
                              (''Setting Rating'', ''setting_rating''),
                              (''Review'', ''review''),
                              (''Review Summary - Liked'', ''review_summary_liked''),
                              (''Review Summary - Disliked'', ''review_summary_disliked''),
                              (''Review Summary - Disagreed'', ''review_summary_disagreed''),
                              (''Emoji Reaction'', ''emoji_reaction'')].
            dict_get nb fld \<in> {PNone, PStr []} \<longrightarrow> dict_get row col \<in> {PNone, PStr []}) \<and>
         (\<forall>(col, fld) \<in> set [(''Published Date'', ''published_date''),
                              (''Started Reading'', ''started_reading_at''),
                              (''Finished Reading'', ''finished_reading_at'')].
            \<not> truthy (dict_get nb fld) \<longrightarrow> dict_get row col = PStr []) \<and>
         (\<not> truthy (dict_get nb ''review_created_at'') \<and> \<not> truthy (dict_get nb ''added_at'') \<and>
          \<not> truthy (dict_get nb ''created_at'') \<longrightarrow> dict_get row ''Date Added'' = PStr []) \<and>
         (\<not> truthy (dict_get nb ''isbn'') \<longrightarrow>
            dict_get row ''ISBN-10'' = PStr [] \<and> dict_get row ''ISBN-13'' = PStr [])"
      by (rule csv_row_cells [OF row])
    show "\<exists>nb. normalize_book book = Inr nb \<and> csv_row env nb = Inr row \<and>
         (\<forall>(col, fld) \<in> set [(''Contains Spoilers'', ''contains_spoilers''),
                              (''Did Not Finish'', ''did_not_finish'')].
            dict_get row col = PStr (if truthy (dict_get nb fld) then ''Yes'' else ''No'')) \<and>
         (\<forall>(col, fld) \<in> set [(''Genres'', ''genres''), (''Moods'', ''moods''),
                              (''Content Warnings'', ''content_warnings''),
                              (''Attributes/Tags'', ''attributes'')].
            \<forall>xs. dict_get nb fld = PList xs \<longrightarrow>
                 (\<exists>ss. xs = map PStr ss \<and> dict_get row col = PStr (join_strs ''; '' ss))) \<and>
         (\<forall>xs. dict_get nb ''authors'' = PList xs \<longrightarrow>
                 (\<exists>ss. filter truthy (map author_name xs) = map PStr ss \<and>
                       dict_get row ''Author(s)'' = PStr (join_strs '', '' ss))) \<and>
         (\<forall>(col, fld) \<in> set [(''Title'', ''title''), (''Subtitle'', ''subtitle''),
                              (''Publisher'', ''imprint''), (''Pages'', ''page_count''),
                              (''Status'', ''status''), (''Rating'', ''rating''),
                              (''Characters Rating'', ''characters_rating''),
                              (''Plot Rating'', ''plot_rating''),
                              (''Writing Style Rating'', ''writing_style_rating''),
                              (''Setting Rating'', ''setting_rating''),
                              (''Review'', ''review''),
                              (''Review Summary - Liked'', ''review_summary_liked''),
                              (''Review Summary - Disliked'', ''review_summary_disliked''),
                              (''Review Summary - Disagreed'', ''review_summary_disagreed''),
                              (''Emoji Reaction'', ''emoji_reaction'')].
            dict_get nb fld \<in> {PNone, PStr []} \<longrightarrow> dict_get row col \<in> {PNone, PStr []}) \<and>
         (\<forall>(col, fld) \<in> set [(''Published Date'', ''published_date''),
                              (''Started Reading'', ''started_reading_at''),
                              (''Finished Reading'', ''finished_reading_at'')].
            \<not> truthy (dict_get nb fld) \<longrightarrow> dict_get row col = PStr []) \<and>
         (\<not> truthy (dict_get nb ''review_created_at'') \<and> \<not> truthy (dict_get nb ''added_at'') \<and>
          \<not> truthy (dict_get nb ''created_at'') \<longrightarrow> dict_get row ''Date Added'' = PStr []) \<and>
         (\<not> truthy (dict_get nb ''isbn'') \<longrightarrow>
            dict_get row ''ISBN-10'' = PStr [] \<and> dict_get row ''ISBN-13'' = PStr [])"
      by (rule exI [of _ nb], rule conjI [OF nb conjI [OF row cells]])
  qed
  with steps written show ?thesis
    by (intro exI [of _ fs1] exI [of _ fs2] exI [of _ fs3] exI [of _ rows] conjI)
qed

text \<open>
  Claim C7, witness: the export of a null entry and a book with a title and two authors,
  the first given as an object and the second as a string: one row follows the header, its
  authors cell holds the two names joined with a comma, and its two boolean cells are
  \<^verbatim>\<open>No\<close>.
\<close>

theorem csv_export_cells_witness:
  "\<exists>fs' row.
      export_to_csv demo_env
        [PNone, PDict [(''title'', PStr ''T''),
                       (''authors'', PList [PDict [(''name'', PStr ''A'')], PStr ''B''])]]
        [''out'', ''books.csv''] [] = (Inr [''out'', ''books.csv''], fs') \<and>
      write_chunks demo_env [''out'', ''books.csv''] [CsvRow row]
        [([''out'', ''books.csv''], [CsvHeader csv_fieldnames])] = (None, fs') \<and>
      dict_get row ''Author(s)'' = PStr ''A, B'' \<and>
      dict_get row ''Contains Spoilers'' = PStr ''No'' \<and>
      dict_get row ''Did Not Finish'' = PStr ''No''"
proof -
  define raw where
    "raw = [(''title'', PStr ''T''), (''authors'', PList [PDict [(''name'', PStr ''A'')], PStr ''B''])]"
  define p where "p = [''out'', ''books.csv'']"
  define nb0 where "nb0 = nb_record raw raw (PList []) PNone PNone (PStr [])"
  have norm: "normalize_book (PDict raw) = Inr nb0"
    by (simp add: nb0_def raw_def normalize_book_def normalize_dict_def Let_def nb_book_data_def
        nb_genres_def nb_reading_progress_def nb_emoji_reaction_def dict_get_def
        dict_get_default_def py_or_def)
  have vals: "dict_get nb0 ''authors'' = PList [PDict [(''name'', PStr ''A'')], PStr ''B'']"
    "dict_get nb0 ''contains_spoilers'' = PNone" "dict_get nb0 ''did_not_finish'' = PNone"
    by (simp_all add: nb0_def raw_def nb_record_def nb_authors_def dict_get_def
        dict_get_default_def py_or_def)
  have "\<exists>row. csv_row demo_env nb0 = Inr row"
    by (simp add: nb0_def raw_def csv_row_def nb_record_def nb_authors_def nb_tag_group_def
        nb_summary_def nb_read_status_def nb_reading_progress_def nb_attribute_names_def
        names_of_def List.map_filter_simps dict_get_def dict_get_default_def py_or_def Let_def
        extract_isbn_def format_authors_list_def py_join_def)
  then obtain row0 where row0: "csv_row demo_env nb0 = Inr row0" ..
  have fs: "mkdir_parents demo_env q fs = (None, fs)"
    "open_write demo_env p [] = (None, [(p, [])])"
    "write_chunk demo_env p c [(p, cs)] = (None, [(p, cs @ [c])])" for q fs c cs
    by (simp_all add: demo_env_def)
  have run: "export_to_csv demo_env [PNone, PDict raw] p [] =
      (Inr p, [(p, [CsvHeader csv_fieldnames, CsvRow row0])])"
    by (simp add: export_to_csv_def fs csv_book_row_def norm row0)
  from csv_export_cells [OF run] obtain fs1 fs2 fs3 rows where
    steps: "mkdir_parents demo_env (path_parent p) [] = (None, fs1)"
      "open_write demo_env p fs1 = (None, fs2)"
      "write_chunk demo_env p (CsvHeader csv_fieldnames) fs2 = (None, fs3)"
      "write_chunks demo_env p (map CsvRow rows) fs3 =
         (None, [(p, [CsvHeader csv_fieldnames, CsvRow row0])])"
    and each: "list_all2
       (\<lambda>book row. \<exists>nb. normalize_book book = Inr nb \<and> csv_row demo_env nb = Inr row \<and>
         (\<forall>(col, fld) \<in> set [(''Contains Spoilers'', ''contains_spoilers''),
                              (''Did Not Finish'', ''did_not_finish'')].
            dict_get row col = PStr (if truthy (dict_get nb fld) then ''Yes'' else ''No'')) \<and>
         (\<forall>(col, fld) \<in> set [(''Genres'', ''genres''), (''Moods'', ''moods''),
                              (''Content Warnings'', ''content_warnings''),
                              (''Attributes/Tags'', ''attributes'')].
            \<forall>xs. dict_get nb fld = PList xs \<longrightarrow>
                 (\<exists>ss. xs = map PStr ss \<and> dict_get row col = PStr (join_strs ''; '' ss))) \<and>
         (\<forall>xs. dict_get nb ''authors'' = PList xs \<longrightarrow>
                 (\<exists>ss. filter truthy (map author_name xs) = map PStr ss \<and>
                       dict_get row ''Author(s)'' = PStr (join_strs '', '' ss))) \<and>
         (\<forall>(col, fld) \<in> set [(''Title'', ''title''), (''Subtitle'', ''subtitle''),
                              (''Publisher'', ''imprint''), (''Pages'', ''page_count''),
                              (''Status'', ''status''), (''Rating'', ''rating''),
                              (''Characters Rating'', ''characters_rating''),
                              (''Plot Rating'', ''plot_rating''),
                              (''Writing Style Rating'', ''writing_style_rating''),
                              (''Setting Rating'', ''setting_rating''),
                              (''Review'', ''review''),
                              (''Review Summary - Liked'', ''review_summary_liked''),
                              (''Review Summary - Disliked'', ''review_summary_disliked''),
                              (''Review Summary - Disagreed'', ''review_summary_disagreed''),
                              (''Emoji Reaction'', ''emoji_reaction'')].
            dict_get nb fld \<in> {PNone, PStr []} \<longrightarrow> dict_get row col \<in> {PNone, PStr []}) \<and>
         (\<forall>(col, fld) \<in> set [(''Published Date'', ''published_date''),
                              (''Started Reading'', ''started_reading_at''),
                              (''Finished Reading'', ''finished_reading_at'')].
            \<not> truthy (dict_get nb fld) \<longrightarrow> dict_get row col = PStr []) \<and>
         (\<not> truthy (dict_get nb ''review_created_at'') \<and> \<not> truthy (dict_get nb ''added_at'') \<and>
          \<not> truthy (dict_get nb ''created_at'') \<longrightarrow> dict_get row ''Date Added'' = PStr []) \<and>
         (\<not> truthy (dict_get nb ''isbn'') \<longrightarrow>
            dict_get row ''ISBN-10'' = PStr [] \<and> dict_get row ''ISBN-13'' = PStr []))
       (filter (\<lambda>b. b \<noteq> PNone) [PNone, PDict raw]) rows"
    by (elim exE conjE)
  from steps(1) have fs1: "fs1 = []"
    by (simp add: fs)
  from steps(2) have fs2: "fs2 = [(p, [])]"
    unfolding fs1 by (simp add: fs)
  from steps(3) have fs3: "fs3 = [(p, [CsvHeader csv_fieldnames])]"
    unfolding fs2 by (simp add: fs)
  have single: "\<exists>y. ys = [y] \<and> P x y"
    if "list_all2 P (filter (\<lambda>b. b \<noteq> PNone) [PNone, x]) ys" "x \<noteq> PNone"
    for P x and ys :: "pydict list"
    using that by (auto simp add: list_all2_Cons1)
  have ne: "PDict raw \<noteq> PNone"
    by simp
  from single [OF each ne] obtain row where
    one: "rows = [row] \<and>
      (\<exists>nb. normalize_book (PDict raw) = Inr nb \<and> csv_row demo_env nb = Inr row \<and>
         (\<forall>(col, fld) \<in> set [(''Contains Spoilers'', ''contains_spoilers''),
                              (''Did Not Finish'', ''did_not_finish'')].
            dict_get row col = PStr (if truthy (dict_get nb fld) then ''Yes'' else ''No'')) \<and>
         (\<forall>(col, fld) \<in> set [(''Genres'', ''genres''), (''Moods'', ''moods''),
                              (''Content Warnings'', ''content_warnings''),
                              (''Attributes/Tags'', ''attributes'')].
            \<forall>xs. dict_get nb fld = PList xs \<longrightarrow>
                 (\<exists>ss. xs = map PStr ss \<and> dict_get row col = PStr (join_strs ''; '' ss))) \<and>
         (\<forall>xs. dict_get nb ''authors'' = PList xs \<longrightarrow>
                 (\<exists>ss. filter truthy (map author_name xs) = map PStr ss \<and>
                       dict_get row ''Author(s)'' = PStr (join_strs '', '' ss))) \<and>
         (\<forall>(col, fld) \<in> set [(''Title'', ''title''), (''Subtitle'', ''subtitle''),
                              (''Publisher'', ''imprint''), (''Pages'', ''page_count''),
                              (''Status'', ''status''), (''Rating'', ''rating''),
                              (''Characters Rating'', ''characters_rating''),
                              (''Plot Rating'', ''plot_rating''),
                              (''Writing Style Rating'', ''writing_style_rating''),
                              (''Setting Rating'', ''setting_rating''),
                              (''Review'', ''review''),
                              (''Review Summary - Liked'', ''review_summary_liked''),
                              (''Review Summary - Disliked'', ''review_summary_disliked''),
                              (''Review Summary - Disagreed'', ''review_summary_disagreed''),
                              (''Emoji Reaction'', ''emoji_reaction'')].
            dict_get nb fld \<in> {PNone, PStr []} \<longrightarrow> dict_get row col \<in> {PNone, PStr []}) \<and>
         (\<forall>(col, fld) \<in> set [(''Published Date'', ''published_date''),
                              (''Started Reading'', ''started_reading_at''),
                              (''Finished Reading'', ''finished_reading_at'')].
            \<not> truthy (dict_get nb fld) \<longrightarrow> dict_get row col = PStr []) \<and>
         (\<not> truthy (dict_get nb ''review_created_at'') \<and> \<not> truthy (dict_get nb ''added_at'') \<and>
          \<not> truthy (dict_get nb ''created_at'') \<longrightarrow> dict_get row ''Date Added'' = PStr []) \<and>
         (\<not> truthy (dict_get nb ''isbn'') \<longrightarrow>
            dict_get row ''ISBN-10'' = PStr [] \<and> dict_get row ''ISBN-13'' = PStr []))" ..
  note rows = one [THEN conjunct1]
  from one [THEN conjunct2] obtain nb where
    both: "normalize_book (PDict raw) = Inr nb \<and> csv_row demo_env nb = Inr row \<and>
         (\<forall>(col, fld) \<in> set [(''Contains Spoilers'', ''contains_spoilers''),
                              (''Did Not Finish'', ''did_not_finish'')].
            dict_get row col = PStr (if truthy (dict_get nb fld) then ''Yes'' else ''No'')) \<and>
         (\<forall>(col, fld) \<in> set [(''Genres'', ''genres''), (''Moods'', ''moods''),
                              (''Content Warnings'', ''content_warnings''),
                              (''Attributes/Tags'', ''attributes'')].
            \<forall>xs. dict_get nb fld = PList xs \<longrightarrow>
                 (\<exists>ss. xs = map PStr ss \<and> dict_get row col = PStr (join_strs ''; '' ss))) \<and>
         (\<forall>xs. dict_get nb ''authors'' = PList xs \<longrightarrow>
                 (\<exists>ss. filter truthy (map author_name xs) = map PStr ss \<and>
                       dict_get row ''Author(s)'' = PStr (join_strs '', '' ss))) \<and>
         (\<forall>(col, fld) \<in> set [(''Title'', ''title''), (''Subtitle'', ''subtitle''),
                              (''Publisher'', ''imprint''), (''Pages'', ''page_count''),
                              (''Status'', ''status''), (''Rating'', ''rating''),
                              (''Characters Rating'', ''characters_rating''),
                              (''Plot Rating'', ''plot_rating''),
                              (''Writing Style Rating'', ''writing_style_rating''),
                              (''Setting Rating'', ''setting_rating''),
                              (''Review'', ''review''),
                              (''Review Summary - Liked'', ''review_summary_liked''),
                              (''Review Summary - Disliked'', ''review_summary_disliked''),
                              (''Review Summary - Disagreed'', ''review_summary_disagreed''),
                              (''Emoji Reaction'', ''emoji_reaction'')].
            dict_get nb fld \<in> {PNone, PStr []} \<longrightarrow> dict_get row col \<in> {PNone, PStr []}) \<and>
         (\<forall>(col, fld) \<in> set [(''Published Date'', ''published_date''),
                              (''Started Reading'', ''started_reading_at''),
                              (''Finished Reading'', ''finished_reading_at'')].
            \<not> truthy (dict_get nb fld) \<longrightarrow> dict_get row col = PStr []) \<and>
         (\<not> truthy (dict_get nb ''review_created_at'') \<and> \<not> truthy (dict_get nb ''added_at'') \<and>
          \<not> truthy (dict_get nb ''created_at'') \<longrightarrow> dict_get row ''Date Added'' = PStr []) \<and>
         (\<not> truthy (dict_get nb ''isbn'') \<longrightarrow>
            dict_get row ''ISBN-10'' = PStr [] \<and> dict_get row ''ISBN-13'' = PStr [])" ..
  note nb = both [THEN conjunct1]
  note cells = both [THEN conjunct2, THEN conjunct2]
  from nb norm have nb_eq: "nb = nb0"
    by simp
  from cells [THEN conjunct1]
  have booleans: "dict_get row ''Contains Spoilers'' = PStr ''No''"
    "dict_get row ''Did Not Finish'' = PStr ''No''"
    unfolding nb_eq by (simp_all add: vals)
  from cells [THEN conjunct2, THEN conjunct2, THEN conjunct1]
  have "dict_get nb0 ''authors'' = PList [PDict [(''name'', PStr ''A'')], PStr ''B''] \<longrightarrow>
      (\<exists>ss. filter truthy (map author_name [PDict [(''name'', PStr ''A'')], PStr ''B'']) = map PStr ss \<and>
            dict_get row ''Author(s)'' = PStr (join_strs '', '' ss))"
    unfolding nb_eq by (rule spec)
  with vals(1) obtain ss where
    ss: "filter truthy (map author_name [PDict [(''name'', PStr ''A'')], PStr ''B'']) = map PStr ss"
    and joined: "dict_get row ''Author(s)'' = PStr (join_strs '', '' ss)"
    by blast
  from ss have "map PStr ss = [PStr ''A'', PStr ''B'']"
    by (simp add: dict_get_default_def)
  then have "ss = [''A'', ''B'']"
    by (auto simp add: map_eq_Cons_conv)
  with joined have authors: "dict_get row ''Author(s)'' = PStr ''A, B''"
    by simp
  from steps(4) have written: "write_chunks demo_env p [CsvRow row] [(p, [CsvHeader csv_fieldnames])] =
      (None, [(p, [CsvHeader csv_fieldnames, CsvRow row0])])"
    unfolding rows fs3 by simp
  show ?thesis
    unfolding raw_def [symmetric] p_def [symmetric]
    by (intro exI [of _ "[(p, [CsvHeader csv_fieldnames, CsvRow row0])]"] exI [of _ row] conjI
        run written authors booleans)
qed

text \<open>
  Claim C4. Of two books, one with the status \<^verbatim>\<open>abandoned\<close> and one finished, the
  document counts two and has the section of the finished one; the loop of line 408 runs
  over \<^verbatim>\<open>status_order\<close> only, so the group \<^verbatim>\<open>abandoned\<close> that line 399 filled is
  never written and the title-cased label of line 410 never used.
\<close>

theorem markdown_other_status_not_written:
  "md_lines env [PDict [(''title'', PStr ''T''), (''status'', PStr ''abandoned'')],
                 PDict [(''title'', PStr ''V''), (''status'', PStr ''finished'')]] =
   Inr [''# My Fable Book Library'' @ nl,
        ''Exported on: '' @ now_stamp env @ nl,
        ''Total books: 2'' @ nl,
        nl @ ''---'' @ nl,
        nl @ ''## Finished (1)'' @ nl,
        ''### V'' @ nl,
        nl @ ''---'' @ nl]"
proof -
  have t: "normalize_book (PDict [(''title'', PStr ''T''), (''status'', PStr ''abandoned'')]) =
      Inr (nb_record [(''title'', PStr ''T''), (''status'', PStr ''abandoned'')]
             [(''title'', PStr ''T''), (''status'', PStr ''abandoned'')] (PList []) PNone PNone (PStr []))"
    by (simp add: normalize_book_def normalize_dict_def Let_def nb_book_data_def nb_genres_def
        nb_reading_progress_def nb_emoji_reaction_def dict_get_def dict_get_default_def py_or_def)
  have v: "normalize_book (PDict [(''title'', PStr ''V''), (''status'', PStr ''finished'')]) =
      Inr (nb_record [(''title'', PStr ''V''), (''status'', PStr ''finished'')]
             [(''title'', PStr ''V''), (''status'', PStr ''finished'')] (PList []) PNone PNone (PStr []))"
    by (simp add: normalize_book_def normalize_dict_def Let_def nb_book_data_def nb_genres_def
        nb_reading_progress_def nb_emoji_reaction_def dict_get_def dict_get_default_def py_or_def)
  define nt where "nt = nb_record [(''title'', PStr ''T''), (''status'', PStr ''abandoned'')]
             [(''title'', PStr ''T''), (''status'', PStr ''abandoned'')] (PList []) PNone PNone (PStr [])"
  define nv where "nv = nb_record [(''title'', PStr ''V''), (''status'', PStr ''finished'')]
             [(''title'', PStr ''V''), (''status'', PStr ''finished'')] (PList []) PNone PNone (PStr [])"
  have st: "dict_get_default nt ''status'' (PStr ''unknown'') = PStr ''abandoned''"
    "dict_get_default nv ''status'' (PStr ''unknown'') = PStr ''finished''"
    by (simp_all add: nt_def nv_def nb_record_def nb_read_status_def nb_reading_progress_def
        dict_get_def dict_get_default_def py_or_def)
  have group: "md_group [PDict [(''title'', PStr ''T''), (''status'', PStr ''abandoned'')],
                 PDict [(''title'', PStr ''V''), (''status'', PStr ''finished'')]] [] =
      Inr [(PStr ''abandoned'', [nt]), (PStr ''finished'', [nv])]"
    by (simp add: t v nt_def [symmetric] nv_def [symmetric] st key_eq_def)
  have book: "md_book env nv = Inr [''### V'' @ nl, nl @ ''---'' @ nl]"
    by (simp add: md_book_def md_joined_line_def md_rating_lines_def md_date_lines_def
        format_date_def format_authors_list_def nv_def nb_record_def nb_authors_def
        nb_tag_group_def nb_attribute_names_def names_of_def List.map_filter_simps
        dict_get_def dict_get_default_def py_or_def)
  have sections: "md_sections env [(PStr ''abandoned'', [nt]), (PStr ''finished'', [nv])] status_order =
      Inr [nl @ ''## Finished (1)'' @ nl, ''### V'' @ nl, nl @ ''---'' @ nl]"
    by (simp add: status_order_def status_labels_def key_eq_def book)
  show ?thesis
    unfolding md_lines_def Let_def group sum.case sections
    by simp
qed

text \<open>Claim C4, witness: the same two books, with the clock of the example environment.\<close>

theorem markdown_other_status_not_written_witness:
  "md_lines demo_env [PDict [(''title'', PStr ''T''), (''status'', PStr ''abandoned'')],
                      PDict [(''title'', PStr ''V''), (''status'', PStr ''finished'')]] =
   Inr [''# My Fable Book Library'' @ nl,
        ''Exported on: 2024-01-01 00:00:00'' @ nl,
        ''Total books: 2'' @ nl,
        nl @ ''---'' @ nl,
        nl @ ''## Finished (1)'' @ nl,
        ''### V'' @ nl,
        nl @ ''---'' @ nl]"
  using markdown_other_status_not_written [of demo_env] by (simp add: demo_env_def)

section \<open>Properties of the review merger on the heap\<close>

lemma list_append_h_length [simp]: "length (list_append_h h a v) = length h"
  by (simp add: list_append_h_def split: hobj.splits)

lemma list_append_h_other: "b \<noteq> a \<Longrightarrow> list_append_h h a v ! b = h ! b"
  by (simp add: list_append_h_def split: hobj.splits)

lemma list_append_h_at:
  "a < length h \<Longrightarrow> h ! a = HList xs \<Longrightarrow> list_append_h h a v ! a = HList (xs @ [v])"
  by (simp add: list_append_h_def)

lemma merge_try_h_cases:
  assumes "heap_dict hh (HRef b) = Some entries"
  obtains
    (passed) "merge_try_h hh b r n = (None, list_append_h hh n (HRef b))"
  | (copied) "merge_try_h hh b r n = (None, list_append_h (hh @ [HDict entries]) n (HRef (length hh)))"
  | (raised) "merge_try_h hh b r n = (Some TypeError, hh @ [HDict entries])"
  | (overlay) rs s rv rd where
      "heap_dict (hh @ [HDict entries]) (HRef r) = Some rs" "map_of rs s = Some rv"
      "heap_dict (hh @ [HDict entries]) rv = Some rd"
      "merge_try_h hh b r n =
         (None, list_append_h ((hh @ [HDict entries])[length hh := HDict (dict_update entries rd)]) n
                  (HRef (length hh)))"
proof -
  define book_data where
    "book_data = (if heap_dict hh (h_get entries ''book'') \<noteq> None
                  then h_get entries ''book'' else HRef b)"
  define book_id where
    "book_id = (case heap_dict hh book_data of Some bd \<Rightarrow> h_get bd ''id'' | None \<Rightarrow> HNone)"
  define h1 where "h1 = hh @ [HDict entries]"
  define appended where "appended = (None :: pyerror option, list_append_h h1 n (HRef (length hh)))"
  have body: "merge_try_h hh b r n =
     (if \<not> h_truthy hh book_data \<or> heap_dict hh book_data = None
      then (None, list_append_h hh n (HRef b))
      else if \<not> h_truthy h1 book_id then appended
      else (case book_id of
              HRef a \<Rightarrow> (Some TypeError, h1)
            | HStr s \<Rightarrow>
                (case heap_dict h1 (HRef r) of
                   None \<Rightarrow> appended
                 | Some rs \<Rightarrow>
                     (case map_of rs s of
                        None \<Rightarrow> appended
                      | Some review_data \<Rightarrow>
                          (case heap_dict h1 review_data of
                             None \<Rightarrow> appended
                           | Some rd \<Rightarrow>
                               if h_truthy h1 review_data
                               then (None,
                                     list_append_h (h1[length hh := HDict (dict_update entries rd)]) n
                                       (HRef (length hh)))
                               else appended)))
            | _ \<Rightarrow> appended))"
    unfolding merge_try_h_def assms option.case Let_def heap_alloc_def prod.case
      book_data_def [symmetric] book_id_def [symmetric] h1_def [symmetric] appended_def [symmetric]
    by (rule refl)
  have copied': "merge_try_h hh b r n = appended \<Longrightarrow> thesis"
    unfolding appended_def h1_def by (rule copied)
  show thesis
  proof (cases "\<not> h_truthy hh book_data \<or> heap_dict hh book_data = None")
    case True
    then have "merge_try_h hh b r n = (None, list_append_h hh n (HRef b))"
      unfolding body by simp
    then show thesis by (rule passed)
  next
    case dict: False
    show thesis
    proof (cases "h_truthy h1 book_id")
      case False
      with dict have "merge_try_h hh b r n = appended"
        unfolding body by auto
      then show thesis by (rule copied')
    next
      case truthy: True
      show thesis
      proof (cases book_id)
        case (HRef a)
        with dict truthy have "merge_try_h hh b r n = (Some TypeError, hh @ [HDict entries])"
          unfolding body by (auto simp add: h1_def)
        then show thesis by (rule raised)
      next
        case (HStr s)
        show thesis
        proof (cases "heap_dict h1 (HRef r)")
          case None
          with HStr dict truthy have "merge_try_h hh b r n = appended"
            unfolding body by auto
          then show thesis by (rule copied')
        next
          case rs: (Some rs)
          show thesis
          proof (cases "map_of rs s")
            case None
            with rs HStr dict truthy have "merge_try_h hh b r n = appended"
              unfolding body by auto
            then show thesis by (rule copied')
          next
            case rv: (Some rv)
            show thesis
            proof (cases "heap_dict h1 rv")
              case None
              with rv rs HStr dict truthy have "merge_try_h hh b r n = appended"
                unfolding body by auto
              then show thesis by (rule copied')
            next
              case rd: (Some rd)
              show thesis
              proof (cases "h_truthy h1 rv")
                case False
                with rd rv rs HStr dict truthy have "merge_try_h hh b r n = appended"
                  unfolding body by auto
                then show thesis by (rule copied')
              next
                case True
                with rd rv rs HStr dict truthy
                have "merge_try_h hh b r n =
                   (None, list_append_h ((hh @ [HDict entries])[length hh := HDict (dict_update entries rd)]) n
                            (HRef (length hh)))"
                  unfolding body by (auto simp add: h1_def)
                with rs rv rd show thesis
                  unfolding h1_def by (rule overlay)
              qed
            qed
          qed
        qed
      next
        case HNone
        with dict truthy have "merge_try_h hh b r n = appended"
          unfolding body by auto
        then show thesis by (rule copied')
      next
        case (HBool x)
        with dict truthy have "merge_try_h hh b r n = appended"
          unfolding body by auto
        then show thesis by (rule copied')
      next
        case (HInt x)
        with dict truthy have "merge_try_h hh b r n = appended"
          unfolding body by auto
        then show thesis by (rule copied')
      next
        case (HFloat x)
        with dict truthy have "merge_try_h hh b r n = appended"
          unfolding body by auto
        then show thesis by (rule copied')
      qed
    qed
  qed
qed

lemma heap_prefix_nth:
  assumes "take (length h) hh = h" and "a < length h"
  shows "hh ! a = h ! a" and "a < length hh"
proof -
  have "length h \<le> length hh"
    using assms(1) by (metis length_take min.cobounded1)
  with assms(2) show "a < length hh" by simp
  have "take (length h) hh ! a = hh ! a"
    using assms(2) by simp
  with assms(1) show "hh ! a = h ! a" by simp
qed

lemma heap_dict_prefix:
  assumes "take (length h) hh = h" and "a < length h"
  shows "heap_dict hh (HRef a) = heap_dict h (HRef a)"
  using heap_prefix_nth [OF assms] assms(2) by (simp add: heap_dict_def)

lemma heap_closed_values:
  assumes "heap_closed h" and "a < length h" and "v \<in> set (obj_values (h ! a))" and "v = HRef c"
  shows "c < length h"
proof -
  have "h ! a \<in> set h" using assms(2) by simp
  with assms(1) have "list_all (\<lambda>v. case v of HRef a \<Rightarrow> a < length h | _ \<Rightarrow> True) (obj_values (h ! a))"
    by (simp add: heap_closed_def list_all_iff)
  with assms(3,4) show ?thesis
    by (auto simp add: list_all_iff)
qed

lemma merged_item_stable:
  assumes "merged_item h r hh S v" and "length hh \<le> length hh'"
    and "\<And>a. length h < a \<Longrightarrow> a < length hh \<Longrightarrow> hh' ! a = hh ! a"
  shows "merged_item h r hh' S v"
proof -
  from assms(1) consider
    (source) "v \<in> S" "heap_dict h v \<noteq> None"
  | (copy) a src entries where "v = HRef a" "length h < a" "a < length hh" "HRef src \<in> S"
      "heap_dict h (HRef src) = Some entries"
      "hh ! a = HDict entries \<or>
       (\<exists>rs s r' rd. heap_dict h (HRef r) = Some rs \<and> map_of rs s = Some r' \<and>
          heap_dict h r' = Some rd \<and> hh ! a = HDict (dict_update entries rd))"
    unfolding merged_item_def by blast
  then show ?thesis
  proof cases
    case source
    then show ?thesis by (simp add: merged_item_def)
  next
    case copy
    from copy(2,3) have same: "hh' ! a = hh ! a" by (rule assms(3))
    from copy(3) assms(2) have "a < length hh'" by simp
    with copy same show ?thesis
      unfolding merged_item_def by (intro disjI2 exI [of _ a] exI [of _ src] exI [of _ entries]) simp
  qed
qed

lemma merge_inv_append:
  assumes inv: "merge_inv h r hh S out"
    and len: "length hh \<le> length hh1"
    and same: "\<And>a. a < length hh \<Longrightarrow> hh1 ! a = hh ! a"
    and item: "merged_item h r hh1 S v"
  shows "merge_inv h r (list_append_h hh1 (length h) v) S (out @ [v])"
proof -
  let ?n = "length h" and ?hh' = "list_append_h hh1 (length h) v"
  from inv have n: "?n < length hh" and pre: "take ?n hh = h" and at: "hh ! ?n = HList out"
    and items: "list_all (merged_item h r hh S) out"
    by (simp_all add: merge_inv_def)
  from n len have n1: "?n < length hh1" by simp
  from same n at have at1: "hh1 ! ?n = HList out" by simp
  have other: "a \<noteq> ?n \<Longrightarrow> ?hh' ! a = hh1 ! a" for a
    by (rule list_append_h_other)
  have "take ?n ?hh' = take ?n hh"
  proof (rule nth_equalityI)
    show "length (take ?n ?hh') = length (take ?n hh)"
      using n n1 by simp
  next
    fix i assume "i < length (take ?n ?hh')"
    then have i: "i < ?n" by simp
    with n have "i < length hh" by simp
    with i show "take ?n ?hh' ! i = take ?n hh ! i"
      by (simp add: other same)
  qed
  with pre have pre': "take ?n ?hh' = h" by simp
  have at': "?hh' ! ?n = HList (out @ [v])"
    using n1 at1 by (rule list_append_h_at)
  have stable: "merged_item h r ?hh' S w" if "merged_item h r hh1 S w" for w
    using that by (rule merged_item_stable) (simp_all add: other)
  have old: "merged_item h r hh1 S w" if "merged_item h r hh S w" for w
    using that len by (rule merged_item_stable) (simp add: same)
  from items have "list_all (merged_item h r ?hh' S) out"
    by (auto simp add: list_all_iff intro: stable old)
  with item have "list_all (merged_item h r ?hh' S) (out @ [v])"
    by (simp add: stable)
  with n1 pre' at' show ?thesis
    by (simp add: merge_inv_def)
qed

lemma heap_dict_HRef: "heap_dict h v = Some d \<Longrightarrow> \<exists>c. v = HRef c \<and> c < length h \<and> h ! c = HDict d"
  by (cases v) (auto simp add: heap_dict_def split: if_splits hobj.splits)

lemma merge_step_inv:
  assumes inv: "merge_inv h r hh S out" and closed: "heap_closed h" and r: "r < length h"
    and b: "b < length h" and src: "HRef b \<in> S" and d: "heap_dict hh (HRef b) \<noteq> None"
  obtains hh' v where
    "merge_loop_h hh (HRef b # rest) r (length h) = merge_loop_h hh' rest r (length h)"
    "merge_inv h r hh' S (out @ [v])"
proof -
  let ?n = "length h"
  from inv have n: "?n < length hh" and pre: "take ?n hh = h"
    by (simp_all add: merge_inv_def)
  from d obtain entries where entries: "heap_dict hh (HRef b) = Some entries"
    by blast
  with pre b have entries_h: "heap_dict h (HRef b) = Some entries"
    by (simp add: heap_dict_prefix)
  define hh1 where "hh1 = hh @ [HDict entries]"
  have len1: "length hh \<le> length hh1"
    by (simp add: hh1_def)
  have same1: "a < length hh \<Longrightarrow> hh1 ! a = hh ! a" for a
    by (simp add: hh1_def nth_append)
  have pre1: "take ?n hh1 = h"
    using n pre by (simp add: hh1_def)
  have source: "merged_item h r hx S (HRef b)" for hx
    using src entries_h by (simp add: merged_item_def)
  have step: "merge_loop_h hh (HRef b # rest) r ?n =
      (case merge_try_h hh b r ?n of
         (None, h') \<Rightarrow> merge_loop_h h' rest r ?n
       | (Some e, h') \<Rightarrow> merge_loop_h (list_append_h h' ?n (HRef b)) rest r ?n)"
    using d by (auto simp add: all_is_Exception split: prod.splits option.splits)
  from entries show thesis
  proof (cases rule: merge_try_h_cases [where r = r and n = "?n"])
    case passed
    have "merge_inv h r (list_append_h hh ?n (HRef b)) S (out @ [HRef b])"
      by (rule merge_inv_append [OF inv order_refl refl source])
    with passed step show thesis
      by (intro that [of "list_append_h hh ?n (HRef b)" "HRef b"]) simp_all
  next
    case copied
    have item: "merged_item h r hh1 S (HRef (length hh))"
      unfolding merged_item_def
      using n src entries_h
      by (intro disjI2 exI [of _ "length hh"] exI [of _ b] exI [of _ entries]) (simp add: hh1_def)
    have "merge_inv h r (list_append_h hh1 ?n (HRef (length hh))) S (out @ [HRef (length hh)])"
      by (rule merge_inv_append [OF inv len1 same1 item])
    with copied step show thesis
      by (intro that [of "list_append_h hh1 ?n (HRef (length hh))" "HRef (length hh)"])
         (simp_all add: hh1_def)
  next
    case raised
    have "merge_inv h r (list_append_h hh1 ?n (HRef b)) S (out @ [HRef b])"
      by (rule merge_inv_append [OF inv len1 same1 source])
    with raised step show thesis
      by (intro that [of "list_append_h hh1 ?n (HRef b)" "HRef b"]) (simp_all add: hh1_def)
  next
    case (overlay rs s rv rd)
    define hh2 where "hh2 = hh1[length hh := HDict (dict_update entries rd)]"
    have len2: "length hh \<le> length hh2"
      by (simp add: hh2_def hh1_def)
    have same2: "a < length hh \<Longrightarrow> hh2 ! a = hh ! a" for a
      by (simp add: hh2_def same1)
    from overlay(1) pre1 r have rs: "heap_dict h (HRef r) = Some rs"
      by (simp add: hh1_def heap_dict_prefix)
    then have obj: "h ! r = HDict rs"
      by (auto dest: heap_dict_HRef)
    from overlay(3) obtain c where c: "rv = HRef c"
      by (auto dest: heap_dict_HRef)
    from overlay(2) have "rv \<in> set (obj_values (h ! r))"
      by (auto simp add: obj obj_values_def dest: map_of_SomeD intro: rev_image_eqI)
    then have "c < ?n"
      using c by (rule heap_closed_values [OF closed r])
    with overlay(3) pre1 c have rd: "heap_dict h rv = Some rd"
      by (simp add: hh1_def heap_dict_prefix)
    have item: "merged_item h r hh2 S (HRef (length hh))"
      unfolding merged_item_def
      using n src entries_h rs overlay(2) rd
      by (intro disjI2 exI [of _ "length hh"] exI [of _ b] exI [of _ entries])
         (auto simp add: hh2_def hh1_def)
    have "merge_inv h r (list_append_h hh2 ?n (HRef (length hh))) S (out @ [HRef (length hh)])"
      by (rule merge_inv_append [OF inv len2 same2 item])
    with overlay(4) step show thesis
      by (intro that [of "list_append_h hh2 ?n (HRef (length hh))" "HRef (length hh)"])
         (simp_all add: hh2_def hh1_def)
  qed
qed

lemma merge_loop_h_inv:
  assumes "merge_inv h r hh S out" and "heap_closed h" and "r < length h"
    and "\<forall>v \<in> set items. v \<in> S \<and> (\<forall>c. v = HRef c \<longrightarrow> c < length h)"
  shows "\<exists>hh' out'. merge_loop_h hh items r (length h) = (None, hh') \<and> merge_inv h r hh' S out'"
  using assms
proof (induction items arbitrary: hh out)
  case Nil
  then show ?case by auto
next
  case (Cons item items)
  from Cons.prems(4) have rest: "\<forall>v \<in> set items. v \<in> S \<and> (\<forall>c. v = HRef c \<longrightarrow> c < length h)"
    by simp
  note IH = Cons.IH [OF _ Cons.prems(2,3) rest]
  show ?case
  proof (cases "heap_dict hh item")
    case None
    then have "merge_loop_h hh (item # items) r (length h) = merge_loop_h hh items r (length h)"
      by (cases item) simp_all
    with IH [OF Cons.prems(1)] show ?thesis by simp
  next
    case (Some d)
    then obtain b where item: "item = HRef b"
      by (auto dest: heap_dict_HRef)
    with Cons.prems(4) have b: "b < length h" and src: "HRef b \<in> S"
      by simp_all
    from Some item have "heap_dict hh (HRef b) \<noteq> None"
      by simp
    with Cons.prems(1,2,3) b src obtain hh' v where
      "merge_loop_h hh (HRef b # items) r (length h) = merge_loop_h hh' items r (length h)"
      "merge_inv h r hh' S (out @ [v])"
      by (rule merge_step_inv)
    with IH [of hh' "out @ [v]"] item show ?thesis by simp
  qed
qed

text \<open>
  Claim C9. Started in a closed heap on a list \<open>books\<close> and a lookup \<open>reviews\<close>,
  the merger returns the address of a new list, and every object the heap held before the
  call (the list \<open>books\<close>, each of its records, the lookup, and all they refer to) is
  unchanged after it. Each item of the new list is either one of the input records itself,
  passed through, or a dictionary allocated by the call that holds the entries of an input
  record, as they are or updated with the entries of a review of the lookup: enriched
  records are new shallow copies.
\<close>

theorem merge_h_arguments_unchanged:
  assumes "heap_closed h" and "books < length h" and "h ! books = HList items"
    and "reviews < length h" and "h ! reviews = HDict lookup"
  shows "\<exists>h' out. merge_reviews_with_books_h h books reviews = (Inr (length h), h') \<and>
           take (length h) h' = h \<and> h' ! length h = HList out \<and>
           (\<forall>v \<in> set out.
              (v \<in> set items \<and> heap_dict h v \<noteq> None) \<or>
              (\<exists>a src entries.
                  v = HRef a \<and> length h < a \<and> a < length h' \<and>
                  HRef src \<in> set items \<and> heap_dict h (HRef src) = Some entries \<and>
                  (h' ! a = HDict entries \<or>
                   (\<exists>s r rd. map_of lookup s = Some r \<and> heap_dict h r = Some rd \<and>
                       h' ! a = HDict (dict_update entries rd)))))"
proof -
  let ?h0 = "h @ [HList []]"
  have inv0: "merge_inv h reviews ?h0 (set items) []"
    by (simp add: merge_inv_def)
  have "items = obj_values (h ! books)"
    using assms(3) by (simp add: obj_values_def)
  then have valid: "\<forall>v \<in> set items. v \<in> set items \<and> (\<forall>c. v = HRef c \<longrightarrow> c < length h)"
    using heap_closed_values [OF assms(1,2)] by blast
  from merge_loop_h_inv [OF inv0 assms(1,4) valid] obtain h' out where
    loop: "merge_loop_h ?h0 items reviews (length h) = (None, h')"
    and inv: "merge_inv h reviews h' (set items) out"
    by blast
  from loop have run: "merge_reviews_with_books_h h books reviews = (Inr (length h), h')"
    by (simp add: merge_reviews_with_books_h_def heap_alloc_def assms(3))
  have lookup: "heap_dict h (HRef reviews) = Some rs \<longleftrightarrow> rs = lookup" for rs
    using assms(4,5) by (auto simp add: heap_dict_def)
  from inv have "take (length h) h' = h" "h' ! length h = HList out"
    "\<forall>v \<in> set out. merged_item h reviews h' (set items) v"
    by (simp_all add: merge_inv_def list_all_iff)
  with run show ?thesis
    unfolding merged_item_def lookup by blast
qed

theorem merge_h_arguments_unchanged_witness:
  "heap_closed
     [HList [HRef 1, HNone, HRef 2],
      HDict [(''id'', HStr ''A''), (''title'', HStr ''Foo'')],
      HDict [(''id'', HStr ''B'')],
      HDict [(''A'', HRef 4)],
      HDict [(''rating'', HInt 4)]] \<and>
   (\<exists>h' out.
      merge_reviews_with_books_h
        [HList [HRef 1, HNone, HRef 2],
         HDict [(''id'', HStr ''A''), (''title'', HStr ''Foo'')],
         HDict [(''id'', HStr ''B'')],
         HDict [(''A'', HRef 4)],
         HDict [(''rating'', HInt 4)]] 0 3 = (Inr 5, h') \<and>
      take 5 h' =
        [HList [HRef 1, HNone, HRef 2],
         HDict [(''id'', HStr ''A''), (''title'', HStr ''Foo'')],
         HDict [(''id'', HStr ''B'')],
         HDict [(''A'', HRef 4)],
         HDict [(''rating'', HInt 4)]] \<and>
      h' ! 5 = HList out)"
proof -
  define h where
    "h = [HList [HRef 1, HNone, HRef 2],
          HDict [(''id'', HStr ''A''), (''title'', HStr ''Foo'')],
          HDict [(''id'', HStr ''B'')],
          HDict [(''A'', HRef 4)],
          HDict [(''rating'', HInt 4)]]"
  have closed: "heap_closed h"
    by (simp add: h_def heap_closed_def obj_values_def)
  have len: "length h = 5" "0 < length h" "3 < length h"
    by (simp_all add: h_def)
  have items: "h ! 0 = HList [HRef 1, HNone, HRef 2]"
    by (simp add: h_def)
  have lookup: "h ! 3 = HDict [(''A'', HRef 4)]"
    by (simp add: h_def)
  from merge_h_arguments_unchanged [OF closed len(2) items len(3) lookup] obtain h' out where
    "merge_reviews_with_books_h h 0 3 = (Inr 5, h')" "take 5 h' = h" "h' ! 5 = HList out"
    unfolding len(1) by blast
  with closed show ?thesis
    unfolding h_def [symmetric] by blast
qed

end
